theory Spec2Isabelle
  imports Complex_Main "HOL-Library.AList"
begin

section \<open>JavaScript values of the stock service\<close>

text \<open>
  The service (\<^verbatim>\<open>stockService\<close>) works on the JSON payload of a spreadsheet API.
  A JavaScript number is modelled by \<open>jsnum\<close>: a finite value, the two infinities and
  NaN. Finite values are exact rationals: the rounding of IEEE doubles, overflow to an
  infinity and the sign of zero are not modelled; the special values follow IEEE.
  A string is a list of code units below 256.
\<close>

datatype jsnum = Fin rat | PInf | NInf | NaN

datatype jsval =
    JUndefined
  | JNull
  | JBool bool
  | JNum jsnum
  | JStr string
  | JArr "jsval list"
  | JObj "(string \<times> jsval) list"

datatype error = TypeError | HttpError | FetchRejected | JsonRejected

fun isNaN :: "jsnum \<Rightarrow> bool" where
  "isNaN NaN = True"
| "isNaN _ = False"

text \<open>\<^verbatim>\<open>a - b\<close> on numbers.\<close>

fun js_sub :: "jsnum \<Rightarrow> jsnum \<Rightarrow> jsnum" where
  "js_sub (Fin a) (Fin b) = Fin (a - b)"
| "js_sub NaN _ = NaN"
| "js_sub _ NaN = NaN"
| "js_sub PInf PInf = NaN"
| "js_sub NInf NInf = NaN"
| "js_sub PInf _ = PInf"
| "js_sub NInf _ = NInf"
| "js_sub (Fin a) PInf = NInf"
| "js_sub (Fin a) NInf = PInf"

text \<open>
  \<^verbatim>\<open>a / b\<close> on numbers. A zero divisor counts as \<open>+0\<close>; the service divides only by
  100 and by a value it has compared unequal to zero.
\<close>

fun js_div :: "jsnum \<Rightarrow> jsnum \<Rightarrow> jsnum" where
  "js_div NaN _ = NaN"
| "js_div _ NaN = NaN"
| "js_div (Fin a) (Fin b) =
     (if b = 0 then (if a = 0 then NaN else if 0 < a then PInf else NInf)
      else Fin (a / b))"
| "js_div (Fin a) _ = Fin 0"
| "js_div PInf (Fin b) = (if b < 0 then NInf else PInf)"
| "js_div NInf (Fin b) = (if b < 0 then PInf else NInf)"
| "js_div _ _ = NaN"

text \<open>\<^verbatim>\<open>a * b\<close> on numbers.\<close>

fun js_mul :: "jsnum \<Rightarrow> jsnum \<Rightarrow> jsnum" where
  "js_mul NaN _ = NaN"
| "js_mul _ NaN = NaN"
| "js_mul (Fin a) (Fin b) = Fin (a * b)"
| "js_mul (Fin a) PInf = (if a = 0 then NaN else if 0 < a then PInf else NInf)"
| "js_mul (Fin a) NInf = (if a = 0 then NaN else if 0 < a then NInf else PInf)"
| "js_mul PInf (Fin b) = (if b = 0 then NaN else if 0 < b then PInf else NInf)"
| "js_mul NInf (Fin b) = (if b = 0 then NaN else if 0 < b then NInf else PInf)"
| "js_mul PInf PInf = PInf"
| "js_mul NInf NInf = PInf"
| "js_mul PInf NInf = NInf"
| "js_mul NInf PInf = NInf"

text \<open>\<^verbatim>\<open>a > b\<close> and \<^verbatim>\<open>a < b\<close> on numbers: false as soon as one side is NaN.\<close>

fun js_gt :: "jsnum \<Rightarrow> jsnum \<Rightarrow> bool" where
  "js_gt NaN _ = False"
| "js_gt _ NaN = False"
| "js_gt (Fin a) (Fin b) = (b < a)"
| "js_gt PInf PInf = False"
| "js_gt PInf _ = True"
| "js_gt NInf _ = False"
| "js_gt (Fin a) PInf = False"
| "js_gt (Fin a) NInf = True"

definition js_lt :: "jsnum \<Rightarrow> jsnum \<Rightarrow> bool" where
  "js_lt a b = js_gt b a"

subsection \<open>Strings\<close>

definition is_digit :: "char \<Rightarrow> bool" where
  "is_digit c = (c \<in> set ''0123456789'')"

definition is_alpha :: "char \<Rightarrow> bool" where
  "is_alpha c =
     (c \<in> set ''ABCDEFGHIJKLMNOPQRSTUVWXYZ'' \<or> c \<in> set ''abcdefghijklmnopqrstuvwxyz'')"

text \<open>
  White space and line terminators of ECMAScript among the code units below 256: tab,
  line feed, vertical tab, form feed, carriage return, space and no-break space.
\<close>

definition is_space :: "char \<Rightarrow> bool" where
  "is_space c = (of_char c \<in> {9, 10, 11, 12, 13, 32, 160 :: nat})"

definition trim :: "string \<Rightarrow> string" where
  "trim s = rev (dropWhile is_space (rev (dropWhile is_space s)))"

definition startsWith :: "string \<Rightarrow> string \<Rightarrow> bool" where
  "startsWith s p = (take (length p) s = p)"

definition endsWith :: "string \<Rightarrow> string \<Rightarrow> bool" where
  "endsWith s p = (length p \<le> length s \<and> drop (length s - length p) s = p)"

text \<open>\<^verbatim>\<open>s.replace(c, r)\<close> with a one-character string pattern: the first occurrence only.\<close>

fun js_replace :: "char \<Rightarrow> string \<Rightarrow> string \<Rightarrow> string" where
  "js_replace c r [] = []"
| "js_replace c r (x # xs) = (if x = c then r @ xs else x # js_replace c r xs)"

text \<open>\<^verbatim>\<open>s.replace(/,/g, "")\<close>: every comma goes.\<close>

definition strip_commas :: "string \<Rightarrow> string" where
  "strip_commas s = filter (\<lambda>c. c \<noteq> CHR '','') s"

text \<open>\<^verbatim>\<open>s.substring(a, b)\<close> for \<open>a \<le> b\<close>.\<close>

definition substring :: "string \<Rightarrow> nat \<Rightarrow> nat \<Rightarrow> string" where
  "substring s a b = take (min b (length s) - min a (length s)) (drop (min a (length s)) s)"

definition digit_val :: "char \<Rightarrow> nat" where
  "digit_val c = of_char c - 48"

definition nat_of_digits :: "string \<Rightarrow> nat" where
  "nat_of_digits ds = foldl (\<lambda>a c. 10 * a + digit_val c) 0 ds"

fun digit_char :: "nat \<Rightarrow> char" where
  "digit_char n = (''0123456789'' ! (n mod 10))"

text \<open>The decimal numeral of a natural number, as \<^verbatim>\<open>String(n)\<close> prints an integer.\<close>

fun string_of_nat :: "nat \<Rightarrow> string" where
  "string_of_nat n = (if n < 10 then [digit_char n] else string_of_nat (n div 10) @ [digit_char n])"

declare string_of_nat.simps [simp del]

subsection \<open>parseFloat\<close>

text \<open>
  \<^verbatim>\<open>parseFloat\<close> skips leading white space and reads the longest prefix that is a
  decimal literal: an optional sign, then \<^verbatim>\<open>Infinity\<close> or digits with an optional
  fraction and an optional exponent. Without such a prefix the result is NaN.
\<close>

definition exponent_part :: "string \<Rightarrow> int" where
  "exponent_part s =
     (case s of
        [] \<Rightarrow> 0
      | e # r \<Rightarrow>
          if e = CHR ''e'' \<or> e = CHR ''E'' then
            (case r of
               [] \<Rightarrow> 0
             | c # r' \<Rightarrow>
                 if c = CHR ''-'' then
                   (if takeWhile is_digit r' = [] then 0
                    else - int (nat_of_digits (takeWhile is_digit r')))
                 else if c = CHR ''+'' then int (nat_of_digits (takeWhile is_digit r'))
                 else int (nat_of_digits (takeWhile is_digit r)))
          else 0)"

definition pow10 :: "int \<Rightarrow> rat" where
  "pow10 e = (if 0 \<le> e then 10 ^ nat e else 1 / 10 ^ nat (- e))"

definition unsigned_decimal :: "string \<Rightarrow> rat option" where
  "unsigned_decimal u =
     (let ip = takeWhile is_digit u;
          r1 = dropWhile is_digit u;
          fp = (case r1 of [] \<Rightarrow> [] | c # r \<Rightarrow> if c = CHR ''.'' then takeWhile is_digit r else []);
          r2 = (case r1 of [] \<Rightarrow> [] | c # r \<Rightarrow> if c = CHR ''.'' then dropWhile is_digit r else r1)
      in if ip = [] \<and> fp = [] then None
         else Some ((of_nat (nat_of_digits ip) + of_nat (nat_of_digits fp) / 10 ^ length fp)
                    * pow10 (exponent_part r2)))"

definition parseFloat :: "string \<Rightarrow> jsnum" where
  "parseFloat s =
     (let t = dropWhile is_space s;
          neg = (t \<noteq> [] \<and> hd t = CHR ''-'');
          u = (if t \<noteq> [] \<and> (hd t = CHR ''-'' \<or> hd t = CHR ''+'') then tl t else t)
      in if startsWith u ''Infinity'' then (if neg then NInf else PInf)
         else (case unsigned_decimal u of
                 None \<Rightarrow> NaN
               | Some r \<Rightarrow> Fin (if neg then - r else r)))"

subsection \<open>NumericParser\<close>

text \<open>
  \<^verbatim>\<open>_getNumericValue\<close>: \<open>None\<close> is JavaScript's \<^verbatim>\<open>null\<close>. A string loses its commas;
  with a trailing percent sign the first percent sign is removed and the parsed number
  divided by 100; otherwise a string in parentheses is negated before parsing.
\<close>

definition getNumericValue :: "jsval \<Rightarrow> jsnum option" where
  "getNumericValue v =
     (case v of
        JStr s \<Rightarrow>
          (let cleanValue = strip_commas s in
           if endsWith cleanValue ''%'' then
             (let parsed = parseFloat (js_replace CHR ''%'' [] cleanValue)
              in if isNaN parsed then None else Some (js_div parsed (Fin 100)))
           else
             (let cleanValue' =
                    (if startsWith cleanValue ''('' \<and> endsWith cleanValue '')''
                     then CHR ''-'' # substring cleanValue 1 (length cleanValue - 1)
                     else cleanValue);
                  parsed = parseFloat cleanValue'
              in if isNaN parsed then None else Some parsed))
      | JNum n \<Rightarrow> Some n
      | _ \<Rightarrow> None)"

section \<open>The host environment\<close>

text \<open>
  What the service takes from its JavaScript engine and does not define itself:
  the local time zone (a fixed offset from UTC in milliseconds; daylight saving is not
  modelled), whether \<^verbatim>\<open>new Date("YYYY-MM-DD")\<close> rolls a day of 29 to 31 that the month
  does not have over into the next month or gives an invalid date (engines differ),
  the number formatters \<^verbatim>\<open>toLocaleString("de-DE")\<close> and \<^verbatim>\<open>toFixed(2)\<close>, and
  \<^verbatim>\<open>Array.prototype.sort\<close> with a comparator (whose result is implementation-defined
  when the comparator returns NaN inconsistently).
\<close>

record host =
  localTZA :: int
  isoRollover :: bool
  toLocaleString_deDE :: "jsnum \<Rightarrow> string"
  toFixed2 :: "jsnum \<Rightarrow> string"
  sort_with :: "(string \<Rightarrow> string \<Rightarrow> jsnum) \<Rightarrow> string list \<Rightarrow> string list"

section \<open>Dates\<close>

text \<open>A \<^verbatim>\<open>Date\<close> holds a time value in milliseconds since the epoch (UTC), or NaN.\<close>

datatype jsdate = InvalidDate | DateAt int

definition msPerDay :: int where
  "msPerDay = 86400000"

definition is_leap :: "int \<Rightarrow> bool" where
  "is_leap y = (y mod 4 = 0 \<and> (y mod 100 \<noteq> 0 \<or> y mod 400 = 0))"

text \<open>ECMAScript's \<open>DayFromYear\<close>: the day number of 1 January of year \<open>y\<close>.\<close>

definition DayFromYear :: "int \<Rightarrow> int" where
  "DayFromYear y =
     365 * (y - 1970) + (y - 1969) div 4 - (y - 1901) div 100 + (y - 1601) div 400"

definition days_in_month :: "int \<Rightarrow> nat \<Rightarrow> int" where
  "days_in_month y m =
     (if m = 1 then (if is_leap y then 29 else 28)
      else if m \<in> {3, 5, 8, 10} then 30 else 31)"

text \<open>
  ECMAScript's \<open>MakeDay\<close> for a month index (0 is January, any integer is brought into
  range by carrying into the year) and a day of the month (any integer: days carry over).
\<close>

definition MakeDay :: "int \<Rightarrow> int \<Rightarrow> int \<Rightarrow> int" where
  "MakeDay year month dt =
     (let ym = year + month div 12;
          mn = nat (month mod 12)
      in DayFromYear ym + (\<Sum>m \<leftarrow> [0..<mn]. days_in_month ym m) + dt - 1)"

text \<open>
  The civil year and month index of a day number (the inverse of \<open>MakeDay\<close>), computed
  on the 400-year cycle of the Gregorian calendar counted from 1 March.
\<close>

definition civil_of_day :: "int \<Rightarrow> int \<times> int" where
  "civil_of_day z0 =
     (let z = z0 + 719468;
          era = z div 146097;
          doe = z mod 146097;
          yoe = (doe - doe div 1460 + doe div 36524 - doe div 146096) div 365;
          doy = doe - (365 * yoe + yoe div 4 - yoe div 100);
          mp = (5 * doy + 2) div 153;
          m = (if mp < 10 then mp + 3 else mp - 9);
          y = yoe + era * 400 + (if m \<le> 2 then 1 else 0)
      in (y, m - 1))"

definition TimeClip :: "int \<Rightarrow> jsdate" where
  "TimeClip t = (if \<bar>t\<bar> > 8640000000000000 then InvalidDate else DateAt t)"

text \<open>
  \<^verbatim>\<open>new Date(year, month, day)\<close> reads its arguments in local time; an undefined month
  (\<open>None\<close>) is NaN and gives an invalid date; a year from 0 to 99 means 1900 + year.
\<close>

definition new_Date_ymd :: "host \<Rightarrow> nat \<Rightarrow> nat option \<Rightarrow> nat \<Rightarrow> jsdate" where
  "new_Date_ymd h year month dt =
     (case month of
        None \<Rightarrow> InvalidDate
      | Some m \<Rightarrow>
          (let yr = (if year \<le> 99 then 1900 + int year else int year)
           in TimeClip (MakeDay yr (int m) (int dt) * msPerDay - localTZA h)))"

text \<open>
  \<^verbatim>\<open>new Date(s)\<close> for a string of the form \<^verbatim>\<open>YYYY-MM-DD\<close>, the only strings the service
  passes: midnight UTC of that day; a month outside 01 to 12 or a day outside 01 to 31
  gives an invalid date.
\<close>

definition new_Date_iso :: "host \<Rightarrow> string \<Rightarrow> jsdate" where
  "new_Date_iso h s =
     (let y = int (nat_of_digits (take 4 s));
          m = nat_of_digits (take 2 (drop 5 s));
          d = int (nat_of_digits (take 2 (drop 8 s)))
      in if m < 1 \<or> 12 < m \<or> d < 1 \<or> 31 < d then InvalidDate
         else if days_in_month y (m - 1) < d \<and> \<not> isoRollover h then InvalidDate
         else TimeClip (MakeDay y (int m - 1) d * msPerDay))"

text \<open>
  \<^verbatim>\<open>getFullYear()\<close> and \<^verbatim>\<open>getMonth()\<close> read the date in local time; both return an
  integer, or NaN (\<open>None\<close>) on an invalid date.
\<close>

definition getFullYear :: "host \<Rightarrow> jsdate \<Rightarrow> int option" where
  "getFullYear h d =
     (case d of
        InvalidDate \<Rightarrow> None
      | DateAt t \<Rightarrow> Some (fst (civil_of_day ((t + localTZA h) div msPerDay))))"

definition getMonth :: "host \<Rightarrow> jsdate \<Rightarrow> int option" where
  "getMonth h d =
     (case d of
        InvalidDate \<Rightarrow> None
      | DateAt t \<Rightarrow> Some (snd (civil_of_day ((t + localTZA h) div msPerDay))))"

text \<open>The number a date is converted to by \<^verbatim>\<open>-\<close>: its time value.\<close>

definition time_value :: "jsdate \<Rightarrow> jsnum" where
  "time_value d = (case d of InvalidDate \<Rightarrow> NaN | DateAt t \<Rightarrow> Fin (of_int t))"

section \<open>ColumnClassifier and PeriodOrdering\<close>

text \<open>The pattern \<^verbatim>\<open>/^\d{4}-\d{2}-\d{2}$/\<close>.\<close>

definition iso_match :: "string \<Rightarrow> bool" where
  "iso_match s =
     (case s of
        [y1, y2, y3, y4, h1, m1, m2, h2, d1, d2] \<Rightarrow>
          is_digit y1 \<and> is_digit y2 \<and> is_digit y3 \<and> is_digit y4 \<and> h1 = CHR ''-'' \<and>
          is_digit m1 \<and> is_digit m2 \<and> h2 = CHR ''-'' \<and> is_digit d1 \<and> is_digit d2
      | _ \<Rightarrow> False)"

text \<open>
  The pattern \<^verbatim>\<open>/(\d{1,2}) ([A-Za-z]{3}) (\d{2,4})/\<close>, unanchored. \<open>dmy_tail\<close> matches
  what follows the day: a space, three letters, a space and two to four digits, as many
  as there are (the quantifier is greedy and nothing follows it). \<open>dmy_here\<close> matches at
  the start of its argument, trying a two-digit day before a one-digit day;
  \<open>dmy_match\<close> returns the captures of the leftmost match.
\<close>

definition dmy_tail :: "string \<Rightarrow> (string \<times> string) option" where
  "dmy_tail t =
     (case t of
        s1 # a # b # c # s2 # u \<Rightarrow>
          if s1 = CHR '' '' \<and> is_alpha a \<and> is_alpha b \<and> is_alpha c \<and> s2 = CHR '' '' \<and>
             2 \<le> length (takeWhile is_digit (take 4 u))
          then Some ([a, b, c], takeWhile is_digit (take 4 u))
          else None
      | _ \<Rightarrow> None)"

definition dmy_day :: "nat \<Rightarrow> string \<Rightarrow> (string \<times> string \<times> string) option" where
  "dmy_day n s =
     (if n \<le> length s \<and> (\<forall>c \<in> set (take n s). is_digit c)
      then map_option (Pair (take n s)) (dmy_tail (drop n s))
      else None)"

definition dmy_here :: "string \<Rightarrow> (string \<times> string \<times> string) option" where
  "dmy_here s = (case dmy_day 2 s of Some r \<Rightarrow> Some r | None \<Rightarrow> dmy_day 1 s)"

fun dmy_match :: "string \<Rightarrow> (string \<times> string \<times> string) option" where
  "dmy_match [] = None"
| "dmy_match (c # s) =
     (case dmy_here (c # s) of Some r \<Rightarrow> Some r | None \<Rightarrow> dmy_match s)"

text \<open>\<^verbatim>\<open>_isDateColumn\<close>.\<close>

definition isDateColumn :: "string \<Rightarrow> bool" where
  "isDateColumn key = (dmy_match key \<noteq> None \<or> iso_match key)"

text \<open>
  The table \<^verbatim>\<open>monthNames\<close>; \<open>None\<close> is \<^verbatim>\<open>undefined\<close> (no three-letter name is inherited
  from \<^verbatim>\<open>Object.prototype\<close>).
\<close>

definition monthNames :: "string \<Rightarrow> nat option" where
  "monthNames = map_of
     [(''Jan'', 0), (''Feb'', 1), (''Mar'', 2), (''Apr'', 3), (''May'', 4), (''Jun'', 5),
      (''Jul'', 6), (''Aug'', 7), (''Sep'', 8), (''Oct'', 9), (''Nov'', 10), (''Dec'', 11)]"

text \<open>\<^verbatim>\<open>_parseDateStringForSorting\<close>.\<close>

definition parseDateStringForSorting :: "host \<Rightarrow> string \<Rightarrow> jsdate" where
  "parseDateStringForSorting h dateStr =
     (if iso_match dateStr then new_Date_iso h dateStr
      else
        (case dmy_match dateStr of
           Some (p1, p2, p3) \<Rightarrow>
             (let year = nat_of_digits p3;
                  year' = (if year < 100 then year + 2000 else year)
              in new_Date_ymd h year' (monthNames p2) (nat_of_digits p1))
         | None \<Rightarrow> DateAt 0))"

section \<open>Reading rows\<close>

text \<open>
  \<open>read_prop v k\<close> is \<^verbatim>\<open>v[k]\<close> for a receiver other than \<^verbatim>\<open>null\<close> and \<^verbatim>\<open>undefined\<close>;
  \<open>get_prop\<close> adds the TypeError on those two. An object is the association list of
  its own properties. A property inherited from a prototype is a method or an object:
  it reads as \<^verbatim>\<open>undefined\<close> here, which is the same to \<^verbatim>\<open>_getNumericValue\<close>, the only
  reader of a cell under a key that could be inherited.
\<close>

definition array_index :: "string \<Rightarrow> nat option" where
  "array_index k =
     (if k \<noteq> [] \<and> (\<forall>c \<in> set k. is_digit c) \<and> (k = ''0'' \<or> hd k \<noteq> CHR ''0'')
      then Some (nat_of_digits k) else None)"

fun read_prop :: "jsval \<Rightarrow> string \<Rightarrow> jsval" where
  "read_prop (JObj kvs) k = (case map_of kvs k of Some v \<Rightarrow> v | None \<Rightarrow> JUndefined)"
| "read_prop (JArr xs) k =
     (if k = ''length'' then JNum (Fin (of_nat (length xs)))
      else (case array_index k of
              Some i \<Rightarrow> if i < length xs then xs ! i else JUndefined
            | None \<Rightarrow> JUndefined))"
| "read_prop (JStr s) k =
     (if k = ''length'' then JNum (Fin (of_nat (length s)))
      else (case array_index k of
              Some i \<Rightarrow> if i < length s then JStr [s ! i] else JUndefined
            | None \<Rightarrow> JUndefined))"
| "read_prop _ k = JUndefined"

fun nullish :: "jsval \<Rightarrow> bool" where
  "nullish JUndefined = True"
| "nullish JNull = True"
| "nullish _ = False"

definition get_prop :: "jsval \<Rightarrow> string \<Rightarrow> error + jsval" where
  "get_prop v k = (if nullish v then Inl TypeError else Inr (read_prop v k))"

fun truthy :: "jsval \<Rightarrow> bool" where
  "truthy JUndefined = False"
| "truthy JNull = False"
| "truthy (JBool b) = b"
| "truthy (JNum n) = (n \<noteq> Fin 0 \<and> n \<noteq> NaN)"
| "truthy (JStr s) = (s \<noteq> [])"
| "truthy (JArr xs) = True"
| "truthy (JObj kvs) = True"

text \<open>\<^verbatim>\<open>typeof v === "object"\<close>.\<close>

fun typeof_object :: "jsval \<Rightarrow> bool" where
  "typeof_object JNull = True"
| "typeof_object (JArr xs) = True"
| "typeof_object (JObj kvs) = True"
| "typeof_object _ = False"

text \<open>
  \<^verbatim>\<open>Object.keys(v)\<close> and \<^verbatim>\<open>Object.values(v)\<close> for a receiver other than \<^verbatim>\<open>null\<close> and
  \<^verbatim>\<open>undefined\<close>. The engine lists integer-like keys of an object first; such a key is
  never a period header, and the service only filters the keys for period headers.
\<close>

fun own_keys :: "jsval \<Rightarrow> string list" where
  "own_keys (JObj kvs) = map fst kvs"
| "own_keys (JArr xs) = map string_of_nat [0..<length xs]"
| "own_keys (JStr s) = map string_of_nat [0..<length s]"
| "own_keys _ = []"

fun own_values :: "jsval \<Rightarrow> jsval list" where
  "own_values (JObj kvs) = map snd kvs"
| "own_values (JArr xs) = xs"
| "own_values (JStr s) = map (\<lambda>c. JStr [c]) s"
| "own_values _ = []"

text \<open>\<^verbatim>\<open>for (const row of data)\<close>: arrays and strings are iterable, nothing else in JSON is.\<close>

fun iterate :: "jsval \<Rightarrow> error + jsval list" where
  "iterate (JArr xs) = Inr xs"
| "iterate (JStr s) = Inr (map (\<lambda>c. JStr [c]) s)"
| "iterate _ = Inl TypeError"

section \<open>RevenueRowSelector\<close>

definition isReleaseColIdentifying :: "jsval \<Rightarrow> bool" where
  "isReleaseColIdentifying row =
     (case read_prop row ''Release'' of
        JStr releaseColValue \<Rightarrow>
          trim releaseColValue \<in> set [''Quarter'', ''Episode'', ''Period'', ''Metric'']
      | _ \<Rightarrow> False)"

definition hasDateColumns :: "jsval \<Rightarrow> bool" where
  "hasDateColumns row = list_ex isDateColumn (own_keys row)"

text \<open>
  The loop of \<^verbatim>\<open>_findRevenueRow\<close> with its two variables; \<open>None\<close> is \<^verbatim>\<open>null\<close>. Inside
  the guard the row is an object or an array, so the reads cannot throw.
\<close>

fun findRevenueRow_loop :: "jsval list \<Rightarrow> jsval option \<Rightarrow> jsnum \<Rightarrow> jsval option" where
  "findRevenueRow_loop [] bestGuessRow maxRevenue = bestGuessRow"
| "findRevenueRow_loop (row # rows) bestGuessRow maxRevenue =
     (if truthy row \<and> typeof_object row then
        (case getNumericValue (read_prop row []) of
           Some numValue \<Rightarrow>
             if js_gt numValue (Fin 100) \<and> hasDateColumns row \<and>
                js_gt numValue maxRevenue \<and> \<not> isReleaseColIdentifying row
             then findRevenueRow_loop rows (Some row) numValue
             else findRevenueRow_loop rows bestGuessRow maxRevenue
         | None \<Rightarrow> findRevenueRow_loop rows bestGuessRow maxRevenue)
      else findRevenueRow_loop rows bestGuessRow maxRevenue)"

definition findRevenueRow :: "jsval \<Rightarrow> error + jsval option" where
  "findRevenueRow data =
     (case iterate data of
        Inl e \<Rightarrow> Inl e
      | Inr rows \<Rightarrow> Inr (findRevenueRow_loop rows None (Fin (- 1))))"

section \<open>CardSummarizer\<close>

record CardData =
  revenue :: string
  change :: string
  percentageChange :: string
  numericPercentageChange :: "jsnum option"
  revenueLabel :: string

text \<open>
  An element of \<^verbatim>\<open>allDateColumns\<close> by index: \<open>None\<close> is \<^verbatim>\<open>undefined\<close>, which as a
  property key and in a template literal is the string \<^verbatim>\<open>undefined\<close>.
\<close>

definition column_at :: "string list \<Rightarrow> nat \<Rightarrow> string option" where
  "column_at cols i = (if i < length cols then Some (cols ! i) else None)"

definition key_string :: "string option \<Rightarrow> string" where
  "key_string c = (case c of None \<Rightarrow> ''undefined'' | Some k \<Rightarrow> k)"

text \<open>
  The call \<^verbatim>\<open>_parseDateStringForSorting(latestCol)\<close> inside the \<^verbatim>\<open>try\<close>: on
  \<^verbatim>\<open>undefined\<close> the first pattern does not match and \<^verbatim>\<open>dateStr.match\<close> throws.
\<close>

definition parse_latest :: "host \<Rightarrow> string option \<Rightarrow> error + jsdate" where
  "parse_latest h c =
     (case c of None \<Rightarrow> Inl TypeError | Some k \<Rightarrow> Inr (parseDateStringForSorting h k))"

definition quarter_label :: "host \<Rightarrow> jsdate \<Rightarrow> int \<Rightarrow> string" where
  "quarter_label h d year =
     (case getMonth h d of
        Some m \<Rightarrow> ''Q'' @ string_of_nat (nat (m div 3 + 1)) @ '' '' @ string_of_nat (nat year)
      | None \<Rightarrow> ''QNaN '' @ string_of_nat (nat year))"

definition revenueLabel_of :: "host \<Rightarrow> string option \<Rightarrow> string" where
  "revenueLabel_of h latestCol =
     (case parse_latest h latestCol of
        Inr d \<Rightarrow>
          (case getFullYear h d of
             Some year \<Rightarrow> if year > 1900 then quarter_label h d year else key_string latestCol
           | None \<Rightarrow> key_string latestCol)
      | Inl e \<Rightarrow> ''Latest ('' @ key_string latestCol @ '')'')"

text \<open>
  The three variables \<^verbatim>\<open>change\<close>, \<^verbatim>\<open>percentageChange\<close> and
  \<^verbatim>\<open>numericPercentageChange\<close> after the first \<^verbatim>\<open>if\<close> of \<^verbatim>\<open>_processRevenueCardData\<close>.
\<close>

definition change_of ::
  "host \<Rightarrow> jsnum option \<Rightarrow> jsnum option \<Rightarrow> string \<times> string \<times> jsnum option" where
  "change_of h latestRevenueVal previousRevenueVal =
     (case (latestRevenueVal, previousRevenueVal) of
        (Some l, Some p) \<Rightarrow>
          (let calculatedChange = js_sub l p;
               change = toLocaleString_deDE h calculatedChange
           in if p \<noteq> Fin 0 then
                (let calculatedPercentageChange = js_div calculatedChange p
                 in (change,
                     js_replace CHR ''.'' '','' (toFixed2 h (js_mul calculatedPercentageChange (Fin 100)))
                       @ ''%'',
                     Some calculatedPercentageChange))
              else if js_gt calculatedChange (Fin 0) then (change, ''Inf%'', Some PInf)
              else if js_lt calculatedChange (Fin 0) then (change, ''-Inf%'', Some NInf)
              else (change, ''N/A'', None))
      | _ \<Rightarrow> (''N/A'', ''N/A'', None))"

text \<open>\<^verbatim>\<open>_processRevenueCardData\<close>. An empty \<^verbatim>\<open>prevCol\<close> is falsy, like a missing one.\<close>

definition processRevenueCardData :: "host \<Rightarrow> jsval \<Rightarrow> string list \<Rightarrow> error + CardData" where
  "processRevenueCardData h revenueRow allDateColumns =
     (let latestCol = column_at allDateColumns 0;
          prevCol = column_at allDateColumns 1
      in case get_prop revenueRow (key_string latestCol) of
           Inl e \<Rightarrow> Inl e
         | Inr latestCell \<Rightarrow>
             (let latestRevenueVal = getNumericValue latestCell;
                  previousRevenueVal =
                    (case prevCol of
                       Some c \<Rightarrow> if c \<noteq> [] then getNumericValue (read_prop revenueRow c) else None
                     | None \<Rightarrow> None);
                  (change, percentageChange, numericPercentageChange) =
                    change_of h latestRevenueVal previousRevenueVal
              in Inr \<lparr>revenue =
                        (case latestRevenueVal of
                           Some l \<Rightarrow> toLocaleString_deDE h l
                         | None \<Rightarrow> ''N/A''),
                      change = change,
                      percentageChange = percentageChange,
                      numericPercentageChange = numericPercentageChange,
                      revenueLabel = revenueLabel_of h latestCol\<rparr>))"

section \<open>HistoricalExtractor\<close>

text \<open>
  An entry \<^verbatim>\<open>{date, value}\<close> of a series, and the result object \<^verbatim>\<open>historicalData\<close>,
  which starts as the literal \<^verbatim>\<open>{}\<close>: its own properties, an association list in the
  order of their first assignment (the engine enumerates integer-like names first), and
  its prototype, \<open>None\<close> for \<^verbatim>\<open>Object.prototype\<close> or the array that has replaced it.
\<close>

record point =
  pt_date :: string
  pt_value :: jsnum

type_synonym series = "point list"

record historical =
  own_props :: "(string \<times> series) list"
  proto :: "series option"

definition empty_object :: historical where
  "empty_object = \<lparr>own_props = [], proto = None\<rparr>"

text \<open>
  The assignment \<^verbatim>\<open>historicalData[metricName] = series\<close>. The name \<^verbatim>\<open>__proto__\<close> is an
  accessor of \<^verbatim>\<open>Object.prototype\<close>, which ends every prototype chain the object can
  get: the assignment runs its setter, which makes the array the prototype of the
  object and adds no own property. Every other name is absent from the chain or a
  writable data property there (the methods of \<^verbatim>\<open>Object.prototype\<close> and
  \<^verbatim>\<open>Array.prototype\<close>, the elements and the length of an array), so the assignment
  creates the own property or replaces its value.
\<close>

definition assign_series :: "string \<Rightarrow> series \<Rightarrow> historical \<Rightarrow> historical" where
  "assign_series metricName series historicalData =
     (if metricName = ''__proto__'' then historicalData\<lparr>proto := Some series\<rparr>
      else historicalData\<lparr>own_props := AList.update metricName series (own_props historicalData)\<rparr>)"

text \<open>
  \<^verbatim>\<open>(row[""] || row["Release"] || "").trim()\<close>: the read throws on a row that is
  \<^verbatim>\<open>null\<close>, and \<^verbatim>\<open>trim\<close> is a method of strings only, so a truthy cell that is not a
  string throws as well.
\<close>

definition metricName_of :: "jsval \<Rightarrow> error + string" where
  "metricName_of row =
     (case get_prop row [] of
        Inl e \<Rightarrow> Inl e
      | Inr label \<Rightarrow>
          (let v = (if truthy label then label
                    else if truthy (read_prop row ''Release'') then read_prop row ''Release''
                    else JStr [])
           in case v of JStr s \<Rightarrow> Inr (trim s) | _ \<Rightarrow> Inl TypeError))"

text \<open>The inner loop over \<^verbatim>\<open>allDateColumns.slice().reverse()\<close>.\<close>

definition series_of :: "jsval \<Rightarrow> string list \<Rightarrow> series" where
  "series_of row allDateColumns =
     List.map_filter
       (\<lambda>dateCol. map_option (\<lambda>v. \<lparr>pt_date = dateCol, pt_value = v\<rparr>)
                               (getNumericValue (read_prop row dateCol)))
       (rev allDateColumns)"

fun extractHistoricalData_loop ::
  "jsval list \<Rightarrow> string list \<Rightarrow> historical \<Rightarrow> error + historical" where
  "extractHistoricalData_loop [] allDateColumns historicalData = Inr historicalData"
| "extractHistoricalData_loop (row # rows) allDateColumns historicalData =
     (case metricName_of row of
        Inl e \<Rightarrow> Inl e
      | Inr metricName \<Rightarrow>
          if metricName \<noteq> [] \<and> metricName \<notin> set [''Quarter'', ''Episode''] then
            (let series = series_of row allDateColumns
             in if length series > 0
                then extractHistoricalData_loop rows allDateColumns
                       (assign_series metricName series historicalData)
                else extractHistoricalData_loop rows allDateColumns historicalData)
          else extractHistoricalData_loop rows allDateColumns historicalData)"

definition extractHistoricalData :: "jsval \<Rightarrow> string list \<Rightarrow> error + historical" where
  "extractHistoricalData rawData allDateColumns =
     (case iterate rawData of
        Inl e \<Rightarrow> Inl e
      | Inr rows \<Rightarrow> extractHistoricalData_loop rows allDateColumns empty_object)"

section \<open>DashboardAssembler\<close>

record DashboardData =
  cardData :: CardData
  historicalData :: historical
  allRows :: "jsval list"

definition API_URL :: string where
  "API_URL = ''https://sheetdb.io/api/v1/w8reb3oo0bas6''"

definition naCardData :: CardData where
  "naCardData =
     \<lparr>revenue = ''N/A'', change = ''N/A'', percentageChange = ''N/A'',
      numericPercentageChange = None, revenueLabel = ''N/A''\<rparr>"

definition degraded :: DashboardData where
  "degraded = \<lparr>cardData = naCardData, historicalData = empty_object, allRows = []\<rparr>"

text \<open>
  The upstream request. \<^verbatim>\<open>fetch\<close> rejects (\<open>None\<close>) or resolves with a response, whose
  \<^verbatim>\<open>json()\<close> rejects (\<open>None\<close>) or resolves with the parsed body.
\<close>

datatype response = Response (ok: bool) (status: nat) (json: "jsval option")

type_synonym fetch = "string \<Rightarrow> response option"

text \<open>
  The state of the module: the own properties of \<^verbatim>\<open>companyDataCache\<close> and the requests
  issued so far. The cache is a plain object, so a key that \<^verbatim>\<open>Object.prototype\<close>
  defines reads as the inherited member, which is truthy.
\<close>

record service =
  companyDataCache :: "string \<rightharpoonup> DashboardData"
  requests :: "string list"

definition objectPrototypeKeys :: "string list" where
  "objectPrototypeKeys =
     [''constructor'', ''__defineGetter__'', ''__defineSetter__'', ''hasOwnProperty'',
      ''__lookupGetter__'', ''__lookupSetter__'', ''isPrototypeOf'', ''propertyIsEnumerable'',
      ''toString'', ''valueOf'', ''__proto__'', ''toLocaleString'']"

datatype reply = Dashboard DashboardData | Inherited string

definition cache_read :: "service \<Rightarrow> string \<Rightarrow> reply option" where
  "cache_read s k =
     (case companyDataCache s k of
        Some d \<Rightarrow> Some (Dashboard d)
      | None \<Rightarrow> if k \<in> set objectPrototypeKeys then Some (Inherited k) else None)"

text \<open>
  \<^verbatim>\<open>rawData.filter(row => Object.values(row).some(val => val !== "" && val !== null))\<close>:
  only an array has \<^verbatim>\<open>filter\<close>, and \<^verbatim>\<open>Object.values\<close> throws on \<^verbatim>\<open>null\<close>.
\<close>

fun relevant_rows :: "jsval list \<Rightarrow> error + jsval list" where
  "relevant_rows [] = Inr []"
| "relevant_rows (row # rows) =
     (if nullish row then Inl TypeError
      else (case relevant_rows rows of
              Inl e \<Rightarrow> Inl e
            | Inr kept \<Rightarrow>
                Inr (if list_ex (\<lambda>val. val \<noteq> JStr [] \<and> val \<noteq> JNull) (own_values row)
                     then row # kept else kept)))"

definition filter_rows :: "jsval \<Rightarrow> error + jsval list" where
  "filter_rows rawData = (case rawData of JArr rows \<Rightarrow> relevant_rows rows | _ \<Rightarrow> Inl TypeError)"

definition sort_comparator :: "host \<Rightarrow> string \<Rightarrow> string \<Rightarrow> jsnum" where
  "sort_comparator h a b =
     js_sub (time_value (parseDateStringForSorting h b))
            (time_value (parseDateStringForSorting h a))"

text \<open>
  The \<^verbatim>\<open>try\<close> block of \<^verbatim>\<open>getCompanyDashboardData\<close> from the parsed body on: the value it
  stores and returns, or the error it throws.
\<close>

definition assemble :: "host \<Rightarrow> jsval \<Rightarrow> error + DashboardData" where
  "assemble h rawData =
     (if \<not> truthy rawData \<or> read_prop rawData ''length'' = JNum (Fin 0) then Inr degraded
      else
        (let first = read_prop rawData ''0'';
             firstRowKeys = own_keys (if truthy first then first else JObj []);
             allDateColumns = sort_with h (sort_comparator h) (filter isDateColumn firstRowKeys)
         in case findRevenueRow rawData of
              Inl e \<Rightarrow> Inl e
            | Inr revenueRow \<Rightarrow>
                (case filter_rows rawData of
                   Inl e \<Rightarrow> Inl e
                 | Inr allRelevantRows \<Rightarrow>
                     (case revenueRow of
                        Some row \<Rightarrow>
                          if length allDateColumns > 0 then
                            (case processRevenueCardData h row allDateColumns of
                               Inl e \<Rightarrow> Inl e
                             | Inr cd \<Rightarrow>
                                 (case extractHistoricalData rawData allDateColumns of
                                    Inl e \<Rightarrow> Inl e
                                  | Inr hist \<Rightarrow>
                                      Inr \<lparr>cardData = cd, historicalData = hist,
                                           allRows = allRelevantRows\<rparr>))
                          else Inr \<lparr>cardData = naCardData, historicalData = empty_object,
                                    allRows = allRelevantRows\<rparr>
                      | None \<Rightarrow>
                          Inr \<lparr>cardData = naCardData, historicalData = empty_object,
                               allRows = allRelevantRows\<rparr>))))"

text \<open>The \<^verbatim>\<open>try\<close> block as a whole: the request, the status check, the body.\<close>

definition attempt :: "host \<Rightarrow> fetch \<Rightarrow> string \<Rightarrow> error + DashboardData" where
  "attempt h fetch url =
     (case fetch url of
        None \<Rightarrow> Inl FetchRejected
      | Some resp \<Rightarrow>
          if \<not> ok resp then Inl HttpError
          else (case json resp of
                  None \<Rightarrow> Inl JsonRejected
                | Some rawData \<Rightarrow> assemble h rawData))"

text \<open>
  \<^verbatim>\<open>getCompanyDashboardData\<close>: the value the promise settles with (\<open>Inr\<close> resolved,
  \<open>Inl\<close> rejected) and the state afterwards. Every path through the \<^verbatim>\<open>try\<close> and the
  \<^verbatim>\<open>catch\<close> stores what it returns. Console output is left out.
\<close>

definition getCompanyDashboardData ::
  "host \<Rightarrow> fetch \<Rightarrow> string \<Rightarrow> service \<Rightarrow> (error + reply) \<times> service" where
  "getCompanyDashboardData h fetch companyTicker s =
     (let sheetName = companyTicker
      in case cache_read s sheetName of
           Some cached \<Rightarrow> (Inr cached, s)
         | None \<Rightarrow>
             (let url = API_URL @ ''/?sheet='' @ sheetName;
                  d = (case attempt h fetch url of Inl e \<Rightarrow> degraded | Inr d \<Rightarrow> d)
              in (Inr (Dashboard d),
                  s\<lparr>companyDataCache := (companyDataCache s)(sheetName \<mapsto> d),
                    requests := requests s @ [url]\<rparr>)))"

section \<open>An example host\<close>

text \<open>
  A host to evaluate the service on concrete inputs: UTC, day roll-over, and formatters
  that are the engine's on finite values below \<open>10\<^sup>2\<^sup>1\<close> in magnitude. \<^verbatim>\<open>toFixed(2)\<close>
  rounds half away from zero; \<^verbatim>\<open>toLocaleString("de-DE")\<close> keeps at most three fraction
  digits, groups the integer digits by three with a full stop and uses a decimal comma.
  Values that are not finite print under their JavaScript names (the locale's infinity
  sign is not a code unit below 256). The sort is a stable insertion sort that reads a
  NaN from the comparator as zero.
\<close>

definition round_half_up :: "rat \<Rightarrow> nat" where
  "round_half_up x = nat \<lfloor>x + 1 / 2\<rfloor>"

definition sign_string :: "rat \<Rightarrow> string" where
  "sign_string r = (if r < 0 then ''-'' else [])"

fun group3 :: "string \<Rightarrow> string" where
  "group3 ds =
     (if length ds \<le> 3 then ds
      else group3 (take (length ds - 3) ds) @ ''.'' @ drop (length ds - 3) ds)"

declare group3.simps [simp del]

definition fraction_digits :: "nat \<Rightarrow> string" where
  "fraction_digits n =
     rev (dropWhile (\<lambda>c. c = CHR ''0'')
            (rev [digit_char (n div 100), digit_char (n div 10), digit_char n]))"

definition example_toFixed2 :: "jsnum \<Rightarrow> string" where
  "example_toFixed2 x =
     (case x of
        Fin r \<Rightarrow>
          (let n = round_half_up (\<bar>r\<bar> * 100)
           in sign_string r @ string_of_nat (n div 100) @ ''.''
              @ [digit_char (n mod 100 div 10), digit_char n])
      | PInf \<Rightarrow> ''Infinity''
      | NInf \<Rightarrow> ''-Infinity''
      | NaN \<Rightarrow> ''NaN'')"

definition example_toLocaleString :: "jsnum \<Rightarrow> string" where
  "example_toLocaleString x =
     (case x of
        Fin r \<Rightarrow>
          (let n = round_half_up (\<bar>r\<bar> * 1000);
               frac = fraction_digits (n mod 1000)
           in sign_string r @ group3 (string_of_nat (n div 1000))
              @ (if frac = [] then [] else '','' @ frac))
      | PInf \<Rightarrow> ''Infinity''
      | NInf \<Rightarrow> ''-Infinity''
      | NaN \<Rightarrow> ''NaN'')"

fun insert_by :: "(string \<Rightarrow> string \<Rightarrow> jsnum) \<Rightarrow> string \<Rightarrow> string list \<Rightarrow> string list" where
  "insert_by cmp x [] = [x]"
| "insert_by cmp x (y # ys) =
     (if js_gt (cmp y x) (Fin 0) then x # y # ys else y # insert_by cmp x ys)"

definition example_sort :: "(string \<Rightarrow> string \<Rightarrow> jsnum) \<Rightarrow> string list \<Rightarrow> string list" where
  "example_sort cmp xs = foldl (\<lambda>sorted x. insert_by cmp x sorted) [] xs"

definition example_host :: host where
  "example_host =
     \<lparr>localTZA = 0, isoRollover = True, toLocaleString_deDE = example_toLocaleString,
      toFixed2 = example_toFixed2, sort_with = example_sort\<rparr>"

section \<open>Properties of the specification\<close>

text \<open>
  The label value of a row, the number under the empty-string column (NaN when the cell
  does not parse), and the two conditions of the selector: a row is an eligible
  candidate when its label value parses, exceeds 100, and the row has a period column;
  it is disqualified by its \<^verbatim>\<open>Release\<close> cell.
\<close>

definition label_value :: "jsval \<Rightarrow> jsnum" where
  "label_value row = (case getNumericValue (read_prop row []) of Some n \<Rightarrow> n | None \<Rightarrow> NaN)"

definition eligible :: "jsval \<Rightarrow> bool" where
  "eligible row =
     (getNumericValue (read_prop row []) \<noteq> None \<and> js_gt (label_value row) (Fin 100) \<and>
      hasDateColumns row)"

definition selectable :: "jsval \<Rightarrow> bool" where
  "selectable row = (eligible row \<and> \<not> isReleaseColIdentifying row)"

text \<open>
  The first-seen row of maximal label value among the selectable rows of a sequence: the
  row occurs in the sequence, is selectable, exceeds every selectable row before it and
  is exceeded by no selectable row after it.
\<close>

definition first_maximal :: "jsval list \<Rightarrow> jsval \<Rightarrow> bool" where
  "first_maximal rows best =
     (\<exists>pre post. rows = pre @ best # post \<and> selectable best \<and>
        (\<forall>x \<in> set pre. selectable x \<longrightarrow> js_gt (label_value best) (label_value x)) \<and>
        (\<forall>x \<in> set post. selectable x \<longrightarrow> \<not> js_gt (label_value x) (label_value best)))"

text \<open>The invariant of card data: the numeric change is null exactly when its text is N/A.\<close>

definition card_invariant :: "CardData \<Rightarrow> bool" where
  "card_invariant cd = ((numericPercentageChange cd = None) = (percentageChange cd = ''N/A''))"

text \<open>
  The ways the upstream request fails: the request is rejected, the status is not a
  success, the body is not JSON, or the body is empty data by the test
  \<^verbatim>\<open>!rawData || rawData.length === 0\<close>.
\<close>

definition empty_data :: "jsval \<Rightarrow> bool" where
  "empty_data rawData = (\<not> truthy rawData \<or> read_prop rawData ''length'' = JNum (Fin 0))"

definition fetch_fails :: "response option \<Rightarrow> bool" where
  "fetch_fails r =
     (case r of
        None \<Rightarrow> True
      | Some resp \<Rightarrow>
          \<not> ok resp \<or> (case json resp of None \<Rightarrow> True | Some rawData \<Rightarrow> empty_data rawData))"

text \<open>
  A row is retained by the extractor under a name when that is its metric name and the
  name is neither empty nor one of the two header names; it contributes when, moreover,
  its series is not empty.
\<close>

definition retained_as :: "string \<Rightarrow> jsval \<Rightarrow> bool" where
  "retained_as name row =
     (metricName_of row = Inr name \<and> name \<noteq> [] \<and> name \<notin> set [''Quarter'', ''Episode''])"

definition contributes :: "string list \<Rightarrow> string \<Rightarrow> jsval \<Rightarrow> bool" where
  "contributes allDateColumns name row =
     (retained_as name row \<and> series_of row allDateColumns \<noteq> [])"

definition parses :: "jsval \<Rightarrow> string \<Rightarrow> bool" where
  "parses row dateCol = (getNumericValue (read_prop row dateCol) \<noteq> None)"

section \<open>Theorems\<close>

subsection \<open>NumericParser\<close>

lemmas parse_defs = getNumericValue_def strip_commas_def endsWith_def startsWith_def
  parseFloat_def unsigned_decimal_def is_digit_def is_space_def exponent_part_def pow10_def
  nat_of_digits_def digit_val_def substring_def

lemma getNumericValue_other:
  "(\<forall>s. v \<noteq> JStr s) \<Longrightarrow> (\<forall>n. v \<noteq> JNum n) \<Longrightarrow> getNumericValue v = None"
  by (cases v) (simp_all add: getNumericValue_def)

lemma percent_not_paren: "endsWith c ''%'' \<Longrightarrow> \<not> endsWith c '')''"
  by (auto simp: endsWith_def)

text \<open>
  C6: \<^verbatim>\<open>_getNumericValue\<close> maps "1,234" to 1234, "12%" to 0.12, "(50)" to -50, "abc" to
  null and the number 42 to 42; every value that is neither a string nor a number gives
  null; and a string whose comma-free form ends with a percent sign is read as a
  percentage only, never as a parenthesised negative (the two forms exclude each other),
  while every other string is never divided by 100.
\<close>

theorem getNumericValue_examples_precedence:
  "getNumericValue (JStr ''1,234'') = Some (Fin 1234) \<and>
   getNumericValue (JStr ''12%'') = Some (Fin 0.12) \<and>
   getNumericValue (JStr ''(50)'') = Some (Fin (- 50)) \<and>
   getNumericValue (JStr ''abc'') = None \<and>
   getNumericValue (JNum (Fin 42)) = Some (Fin 42) \<and>
   (\<forall>v. (\<forall>s. v \<noteq> JStr s) \<and> (\<forall>n. v \<noteq> JNum n) \<longrightarrow> getNumericValue v = None) \<and>
   (\<forall>s. endsWith (strip_commas s) ''%'' \<longrightarrow>
        \<not> (startsWith (strip_commas s) ''('' \<and> endsWith (strip_commas s) '')'') \<and>
        getNumericValue (JStr s) =
          (let parsed = parseFloat (js_replace CHR ''%'' [] (strip_commas s))
           in if isNaN parsed then None else Some (js_div parsed (Fin 100)))) \<and>
   (\<forall>s. \<not> endsWith (strip_commas s) ''%'' \<longrightarrow>
        getNumericValue (JStr s) =
          (let parsed = parseFloat
                 (if startsWith (strip_commas s) ''('' \<and> endsWith (strip_commas s) '')''
                  then CHR ''-'' # substring (strip_commas s) 1 (length (strip_commas s) - 1)
                  else strip_commas s)
           in if isNaN parsed then None else Some parsed))"
proof (intro conjI allI impI)
  show "getNumericValue (JStr ''1,234'') = Some (Fin 1234)"
    by (simp add: parse_defs)
  show "getNumericValue (JStr ''12%'') = Some (Fin 0.12)"
    by (simp add: parse_defs)
  show "getNumericValue (JStr ''(50)'') = Some (Fin (- 50))"
    by (simp add: parse_defs)
  show "getNumericValue (JStr ''abc'') = None"
    by (simp add: parse_defs)
  show "getNumericValue (JNum (Fin 42)) = Some (Fin 42)"
    by (simp add: getNumericValue_def)
next
  fix v assume "(\<forall>s. v \<noteq> JStr s) \<and> (\<forall>n. v \<noteq> JNum n)"
  then show "getNumericValue v = None"
    by (simp add: getNumericValue_other)
next
  fix s assume "endsWith (strip_commas s) ''%''"
  then show "\<not> (startsWith (strip_commas s) ''('' \<and> endsWith (strip_commas s) '')'')"
    by (simp add: percent_not_paren)
next
  fix s assume "endsWith (strip_commas s) ''%''"
  then show "getNumericValue (JStr s) =
          (let parsed = parseFloat (js_replace CHR ''%'' [] (strip_commas s))
           in if isNaN parsed then None else Some (js_div parsed (Fin 100)))"
    by (simp add: getNumericValue_def Let_def)
next
  fix s assume "\<not> endsWith (strip_commas s) ''%''"
  then show "getNumericValue (JStr s) =
          (let parsed = parseFloat
                 (if startsWith (strip_commas s) ''('' \<and> endsWith (strip_commas s) '')''
                  then CHR ''-'' # substring (strip_commas s) 1 (length (strip_commas s) - 1)
                  else strip_commas s)
           in if isNaN parsed then None else Some parsed)"
    by (simp add: getNumericValue_def Let_def)
qed

text \<open>
  The three quantified parts at \<^verbatim>\<open>null\<close>, at "(5,0)%" (a percentage of something that is
  not a number) and at "(5,0%)" (a parenthesised negative whose percent sign is ignored).
\<close>

theorem getNumericValue_examples_precedence_witness:
  "getNumericValue JNull = None \<and>
   endsWith (strip_commas ''(5,0)%'') ''%'' \<and> getNumericValue (JStr ''(5,0)%'') = None \<and>
   \<not> endsWith (strip_commas ''(5,0%)'') ''%'' \<and> getNumericValue (JStr ''(5,0%)'') = Some (Fin (- 50))"
proof -
  have a: "(\<forall>s. JNull \<noteq> JStr s) \<and> (\<forall>n. JNull \<noteq> JNum n)" by simp
  have b: "endsWith (strip_commas ''(5,0)%'') ''%''" by (simp add: parse_defs)
  have c: "\<not> endsWith (strip_commas ''(5,0%)'') ''%''" by (simp add: parse_defs)
  note t = getNumericValue_examples_precedence
  from t a have "getNumericValue JNull = None" by blast
  moreover from t b have "getNumericValue (JStr ''(5,0)%'') =
          (let parsed = parseFloat (js_replace CHR ''%'' [] (strip_commas ''(5,0)%''))
           in if isNaN parsed then None else Some (js_div parsed (Fin 100)))" by blast
  then have "getNumericValue (JStr ''(5,0)%'') = None" by (simp add: parse_defs)
  moreover from t c have "getNumericValue (JStr ''(5,0%)'') =
          (let parsed = parseFloat
                 (if startsWith (strip_commas ''(5,0%)'') ''('' \<and> endsWith (strip_commas ''(5,0%)'') '')''
                  then CHR ''-'' # substring (strip_commas ''(5,0%)'') 1 (length (strip_commas ''(5,0%)'') - 1)
                  else strip_commas ''(5,0%)'')
           in if isNaN parsed then None else Some parsed)" by blast
  then have "getNumericValue (JStr ''(5,0%)'') = Some (Fin (- 50))" by (simp add: parse_defs)
  ultimately show ?thesis using b c by simp
qed

subsection \<open>Evaluating the example host\<close>

lemma floor_rat_numeral: "\<lfloor>(numeral a :: rat) / numeral b\<rfloor> = numeral a div numeral b"
  by (metis floor_divide_of_int_eq of_int_numeral)

lemmas fmt_defs = example_host_def example_toLocaleString_def example_toFixed2_def
  round_half_up_def sign_string_def fraction_digits_def group3.simps string_of_nat.simps
  floor_rat_numeral

subsection \<open>CardSummarizer: a previous value of zero\<close>

text \<open>
  C1, as amended: for every revenue row and every period list with a latest and a previous
  header, if both cells parse numerically and the previous value is 0, then
  \<^verbatim>\<open>_processRevenueCardData\<close> returns \<^verbatim>\<open>percentageChange = "-Inf%"\<close> and
  \<^verbatim>\<open>numericPercentageChange = -Infinity\<close> when the difference latest - previous is
  below 0; when the difference is neither below nor above 0 (both values are 0), the
  two fields stay \<^verbatim>\<open>"N/A"\<close> and \<^verbatim>\<open>null\<close>.
\<close>

theorem processRevenueCardData_zero_previous:
  assumes "\<not> nullish revenueRow"
    and "previous \<noteq> []"
    and "getNumericValue (read_prop revenueRow latest) = Some l"
    and "getNumericValue (read_prop revenueRow previous) = Some p"
    and "p = Fin 0"
  shows "\<exists>cd. processRevenueCardData h revenueRow (latest # previous # rest) = Inr cd \<and>
           (js_lt (js_sub l p) (Fin 0) \<longrightarrow>
              percentageChange cd = ''-Inf%'' \<and> numericPercentageChange cd = Some NInf) \<and>
           (\<not> js_lt (js_sub l p) (Fin 0) \<and> \<not> js_gt (js_sub l p) (Fin 0) \<longrightarrow>
              percentageChange cd = ''N/A'' \<and> numericPercentageChange cd = None)"
proof -
  have neg: "js_lt (js_sub l p) (Fin 0) \<Longrightarrow> \<not> js_gt (js_sub l p) (Fin 0)"
    by (cases "js_sub l p") (auto simp: js_lt_def)
  show ?thesis
    using assms neg
    by (auto simp: processRevenueCardData_def get_prop_def column_at_def key_string_def
                   change_of_def Let_def)
qed

text \<open>A latest value of -5 (written "(5)") over a previous value of 0.\<close>

theorem processRevenueCardData_zero_previous_witness:
  "\<exists>cd. processRevenueCardData example_host
           (JObj [(''2024-04-01'', JStr ''(5)''), (''2024-01-01'', JStr ''0'')])
           [''2024-04-01'', ''2024-01-01''] = Inr cd \<and>
         percentageChange cd = ''-Inf%'' \<and> numericPercentageChange cd = Some NInf"
proof -
  let ?row = "JObj [(''2024-04-01'', JStr ''(5)''), (''2024-01-01'', JStr ''0'')]"
  have a: "\<not> nullish ?row" by simp
  have b: "''2024-01-01'' \<noteq> []" by simp
  have c: "getNumericValue (read_prop ?row ''2024-04-01'') = Some (Fin (- 5))" by code_simp
  have d: "getNumericValue (read_prop ?row ''2024-01-01'') = Some (Fin 0)" by code_simp
  have e: "js_lt (js_sub (Fin (- 5)) (Fin 0)) (Fin 0)" by (simp add: js_lt_def)
  from processRevenueCardData_zero_previous [OF a b c d refl, of example_host "[]"] e
  show ?thesis by blast
qed

text \<open>
  The claim as stated fails when latest and previous are both 0: the difference is 0,
  so it is at most 0, and the result is \<^verbatim>\<open>"N/A"\<close> and \<^verbatim>\<open>null\<close>, not \<^verbatim>\<open>"-Inf%"\<close>.
\<close>

theorem processRevenueCardData_zero_zero_counterexample:
  "getNumericValue (JStr ''0'') = Some (Fin 0) \<and>
   \<not> js_gt (js_sub (Fin 0) (Fin 0)) (Fin 0) \<and>
   processRevenueCardData example_host
     (JObj [(''2024-04-01'', JStr ''0''), (''2024-01-01'', JStr ''0'')])
     [''2024-04-01'', ''2024-01-01''] =
   Inr \<lparr>revenue = ''0'', change = ''0'', percentageChange = ''N/A'',
        numericPercentageChange = None, revenueLabel = ''Q2 2024''\<rparr>"
  by code_simp

subsection \<open>CardSummarizer: the label\<close>

lemma div_bounds:
  fixes x k :: int
  assumes "0 < k"
  shows "k * (x div k) \<le> x" and "x < k * (x div k) + k"
proof -
  have "x = k * (x div k) + x mod k" by simp
  moreover have "0 \<le> x mod k" and "x mod k < k" using assms by simp_all
  ultimately show "k * (x div k) \<le> x" and "x < k * (x div k) + k" by linarith+
qed

lemma doy_bounds:
  fixes doe :: int
  assumes "0 \<le> doe" "doe \<le> 146096"
  defines "yoe \<equiv> (doe - doe div 1460 + doe div 36524 - doe div 146096) div 365"
  shows "- 5 \<le> doe - (365 * yoe + yoe div 4 - yoe div 100) \<and>
         doe - (365 * yoe + yoe div 4 - yoe div 100) \<le> 370"
proof -
  define a where "a = doe div 1460"
  define b where "b = doe div 36524"
  define c where "c = doe div 146096"
  define q where "q = yoe div 4"
  define p where "p = yoe div 100"
  have a: "1460 * a \<le> doe" "doe < 1460 * a + 1460"
    unfolding a_def by (rule div_bounds, simp)+
  have b: "36524 * b \<le> doe" "doe < 36524 * b + 36524"
    unfolding b_def by (rule div_bounds, simp)+
  have c: "146096 * c \<le> doe" "doe < 146096 * c + 146096"
    unfolding c_def by (rule div_bounds, simp)+
  have y: "365 * yoe \<le> doe - a + b - c" "doe - a + b - c < 365 * yoe + 365"
    unfolding yoe_def a_def b_def c_def by (rule div_bounds, simp)+
  have q: "4 * q \<le> yoe" "yoe < 4 * q + 4"
    unfolding q_def by (rule div_bounds, simp)+
  have p: "100 * p \<le> yoe" "yoe < 100 * p + 100"
    unfolding p_def by (rule div_bounds, simp)+
  have a0: "0 \<le> a" "a \<le> 100" using a assms(1,2) by linarith+
  have b0: "0 \<le> b" "b \<le> 4" using b assms(1,2) by linarith+
  have c0: "0 \<le> c" "c \<le> 1" "c \<le> b" using b c assms(1,2) by linarith+
  have y0: "0 \<le> yoe" "yoe \<le> 400" using y a a0 b0 c0 assms by linarith+
  have aq: "a - q \<le> 1" "q - a \<le> 1" using a y q b0 c0 a0 y0 by linarith+
  have p0: "0 \<le> p" "p \<le> 4" using p y0 by linarith+
  have "- 5 \<le> doe - (365 * yoe + q - p) \<and> doe - (365 * yoe + q - p) \<le> 370"
    using y b0 c0 aq p0 by linarith
  then show ?thesis unfolding q_def p_def .
qed

lemma civil_month_range: "0 \<le> snd (civil_of_day z) \<and> snd (civil_of_day z) \<le> 11"
proof -
  define doe where "doe = (z + 719468) mod 146097"
  define yoe where "yoe = (doe - doe div 1460 + doe div 36524 - doe div 146096) div 365"
  define doy where "doy = doe - (365 * yoe + yoe div 4 - yoe div 100)"
  define mp where "mp = (5 * doy + 2) div 153"
  have d: "0 \<le> doe" "doe \<le> 146096" unfolding doe_def by simp_all
  from doy_bounds [OF d] have doy: "- 5 \<le> doy" "doy \<le> 370"
    unfolding doy_def yoe_def by simp_all
  have "153 * mp \<le> 5 * doy + 2" "5 * doy + 2 < 153 * mp + 153"
    unfolding mp_def by (rule div_bounds, simp)+
  with doy have mp: "- 1 \<le> mp" "mp \<le> 12" by linarith+
  have "snd (civil_of_day z) = (if mp < 10 then mp + 3 else mp - 9) - 1"
    unfolding civil_of_day_def mp_def doy_def yoe_def doe_def Let_def snd_conv by (rule refl)
  with mp show ?thesis by auto
qed

lemma getMonth_range: "getMonth h d = Some m \<Longrightarrow> 0 \<le> m \<and> m \<le> 11"
  using civil_month_range by (auto simp: getMonth_def split: jsdate.splits)

lemma getFullYear_getMonth: "getFullYear h d = Some y \<Longrightarrow> \<exists>m. getMonth h d = Some m"
  by (auto simp: getFullYear_def getMonth_def split: jsdate.splits)

lemma raw_not_fallback: "latest \<noteq> ''Latest ('' @ latest @ '')''"
proof
  assume "latest = ''Latest ('' @ latest @ '')''"
  then have "length latest = length (''Latest ('' @ latest @ '')'')" by (rule arg_cong)
  then show False by simp
qed

lemma processRevenueCardData_label:
  "\<not> nullish revenueRow \<Longrightarrow>
   \<exists>cd. processRevenueCardData h revenueRow (latest # rest) = Inr cd \<and>
        revenueLabel cd = revenueLabel_of h (Some latest)"
  by (simp add: processRevenueCardData_def get_prop_def column_at_def Let_def
           split: prod.splits)

text \<open>
  C2, as amended: for every latest period header, \<^verbatim>\<open>_processRevenueCardData\<close> sets
  \<^verbatim>\<open>revenueLabel\<close> to \<^verbatim>\<open>"Q<quarter> <year>"\<close>, the quarter being month div 3 + 1 of a
  month from 0 to 11, when the header parses to a date whose year exceeds 1900; in every
  other case (an invalid date, or a year up to 1900) the label is the raw header
  string. The label is never \<^verbatim>\<open>"Latest (<latest>)"\<close>: that fallback needs the parser to
  throw, which it does on no string.
\<close>

theorem revenueLabel_by_year:
  assumes "\<not> nullish revenueRow"
  shows "\<exists>cd. processRevenueCardData h revenueRow (latest # rest) = Inr cd \<and>
           revenueLabel cd \<noteq> ''Latest ('' @ latest @ '')'' \<and>
           (case getFullYear h (parseDateStringForSorting h latest) of
              Some year \<Rightarrow>
                if year > 1900 then
                  (\<exists>m. getMonth h (parseDateStringForSorting h latest) = Some m \<and>
                       0 \<le> m \<and> m \<le> 11 \<and>
                       revenueLabel cd =
                         ''Q'' @ string_of_nat (nat (m div 3 + 1)) @ '' '' @ string_of_nat (nat year))
                else revenueLabel cd = latest
            | None \<Rightarrow> revenueLabel cd = latest)"
proof -
  let ?d = "parseDateStringForSorting h latest"
  from assms obtain cd where
    run: "processRevenueCardData h revenueRow (latest # rest) = Inr cd" and
    label: "revenueLabel cd = revenueLabel_of h (Some latest)"
    using processRevenueCardData_label by blast
  have cases: "(case getFullYear h ?d of
              Some year \<Rightarrow>
                if year > 1900 then
                  (\<exists>m. getMonth h ?d = Some m \<and> 0 \<le> m \<and> m \<le> 11 \<and>
                       revenueLabel cd =
                         ''Q'' @ string_of_nat (nat (m div 3 + 1)) @ '' '' @ string_of_nat (nat year))
                else revenueLabel cd = latest
            | None \<Rightarrow> revenueLabel cd = latest)"
  proof (cases "getFullYear h ?d")
    case None
    then show ?thesis
      by (simp add: label revenueLabel_of_def parse_latest_def key_string_def)
  next
    case (Some year)
    then obtain m where m: "getMonth h ?d = Some m"
      using getFullYear_getMonth by blast
    then have "0 \<le> m \<and> m \<le> 11" by (rule getMonth_range)
    with Some m show ?thesis
      by (simp add: label revenueLabel_of_def parse_latest_def key_string_def quarter_label_def)
  qed
  have "revenueLabel cd \<noteq> ''Latest ('' @ latest @ '')''"
  proof (cases "getFullYear h ?d")
    case None
    with cases show ?thesis by (simp add: raw_not_fallback)
  next
    case (Some year)
    with cases show ?thesis by (auto simp: raw_not_fallback split: if_splits)
  qed
  with run cases show ?thesis by blast
qed

text \<open>The header "2024-04-01" gives the label "Q2 2024".\<close>

theorem revenueLabel_by_year_witness:
  "\<exists>cd. processRevenueCardData example_host (JObj [(''2024-04-01'', JStr ''150'')])
           [''2024-04-01''] = Inr cd \<and>
        revenueLabel cd = ''Q2 2024''"
proof -
  let ?d = "parseDateStringForSorting example_host ''2024-04-01''"
  have a: "\<not> nullish (JObj [(''2024-04-01'', JStr ''150'')])" by simp
  have y: "getFullYear example_host ?d = Some 2024" by code_simp
  have m: "getMonth example_host ?d = Some 3" by code_simp
  have s: "''Q'' @ string_of_nat (nat (3 div 3 + 1)) @ '' '' @ string_of_nat (nat 2024) = ''Q2 2024''"
    by code_simp
  from revenueLabel_by_year [OF a, of example_host "''2024-04-01''" "[]"] y m s
  show ?thesis by auto
qed

text \<open>
  The claim as stated fails on the period header "1 jan 24": its month is unknown, the
  date is invalid, its year is NaN and does not exceed 1900, and the label is the raw
  header "1 jan 24", not "Latest (1 jan 24)".
\<close>

theorem revenueLabel_unknown_month_counterexample:
  "isDateColumn ''1 jan 24'' \<and>
   getFullYear example_host (parseDateStringForSorting example_host ''1 jan 24'') = None \<and>
   processRevenueCardData example_host (JObj [(''1 jan 24'', JStr ''150'')]) [''1 jan 24''] =
   Inr \<lparr>revenue = ''150'', change = ''N/A'', percentageChange = ''N/A'',
        numericPercentageChange = None, revenueLabel = ''1 jan 24''\<rparr>"
proof -
  have a: "isDateColumn ''1 jan 24''" by code_simp
  have b: "getFullYear example_host (parseDateStringForSorting example_host ''1 jan 24'') = None"
    by code_simp
  have c: "revenueLabel_of example_host (Some ''1 jan 24'') = ''1 jan 24''" by code_simp
  have d: "getNumericValue (JStr ''150'') = Some (Fin 150)" by code_simp
  have e: "toLocaleString_deDE example_host (Fin 150) = ''150''" by (simp add: fmt_defs)
  show ?thesis
    using a b c d e
    by (simp add: processRevenueCardData_def get_prop_def column_at_def key_string_def
                  change_of_def)
qed

subsection \<open>The invariant of card data\<close>

lemma percent_text_not_NA: "xs @ ''%'' \<noteq> ''N/A''"
proof
  assume "xs @ ''%'' = ''N/A''"
  then have "last (xs @ ''%'') = last ''N/A''" by (rule arg_cong)
  then show False by simp
qed

lemma change_of_invariant:
  "change_of h l p = (c, pc, n) \<Longrightarrow> (n = None) = (pc = ''N/A'')"
  using percent_text_not_NA
  by (auto simp: change_of_def Let_def split: option.splits if_splits)

lemma processRevenueCardData_invariant:
  "processRevenueCardData h row cols = Inr cd \<Longrightarrow> card_invariant cd"
  by (auto simp: processRevenueCardData_def card_invariant_def Let_def
           split: sum.splits prod.splits dest: change_of_invariant)

lemma naCardData_invariant: "card_invariant naCardData"
  by (simp add: card_invariant_def naCardData_def)

lemma assemble_invariant: "assemble h rawData = Inr d \<Longrightarrow> card_invariant (cardData d)"
  by (auto simp: assemble_def Let_def degraded_def naCardData_invariant
           split: if_splits sum.splits option.splits
           dest: processRevenueCardData_invariant)

lemma attempt_invariant: "attempt h fetch url = Inr d \<Longrightarrow> card_invariant (cardData d)"
  by (auto simp: attempt_def split: option.splits if_splits dest: assemble_invariant)

text \<open>
  C4: every card the pipeline produces satisfies the invariant that
  \<^verbatim>\<open>numericPercentageChange\<close> is null exactly when \<^verbatim>\<open>percentageChange\<close> is \<^verbatim>\<open>"N/A"\<close>:
  the result of \<^verbatim>\<open>_processRevenueCardData\<close> on any host, row and period list, the
  degraded placeholder, the result of the assembly on any payload, and what
  \<^verbatim>\<open>getCompanyDashboardData\<close> returns after a request.
\<close>

theorem card_invariant_pipeline:
  "(\<forall>cd. processRevenueCardData h row cols = Inr cd \<longrightarrow> card_invariant cd) \<and>
   card_invariant (cardData degraded) \<and>
   (\<forall>d. assemble h rawData = Inr d \<longrightarrow> card_invariant (cardData d)) \<and>
   (\<forall>d s'. cache_read s t = None \<and>
            getCompanyDashboardData h fetch t s = (Inr (Dashboard d), s') \<longrightarrow>
            card_invariant (cardData d))"
proof (intro conjI allI impI)
  fix cd assume "processRevenueCardData h row cols = Inr cd"
  then show "card_invariant cd" by (rule processRevenueCardData_invariant)
next
  show "card_invariant (cardData degraded)"
    by (simp add: degraded_def naCardData_invariant)
next
  fix d assume "assemble h rawData = Inr d"
  then show "card_invariant (cardData d)" by (rule assemble_invariant)
next
  fix d s'
  assume a: "cache_read s t = None \<and>
             getCompanyDashboardData h fetch t s = (Inr (Dashboard d), s')"
  show "card_invariant (cardData d)"
  proof (cases "attempt h fetch (API_URL @ ''/?sheet='' @ t)")
    case (Inl e)
    with a have "d = degraded" by (auto simp: getCompanyDashboardData_def Let_def)
    then show ?thesis by (simp add: degraded_def naCardData_invariant)
  next
    case (Inr d')
    with a have "d = d'" by (auto simp: getCompanyDashboardData_def Let_def)
    with Inr show ?thesis by (simp add: attempt_invariant)
  qed
qed

text \<open>A payload of one row, with a previous value of 0 and a latest value of 150.\<close>

theorem card_invariant_pipeline_witness:
  "assemble example_host
     (JArr [JObj [([], JStr ''900''), (''2024-01-01'', JStr ''0''), (''2024-04-01'', JStr ''150'')]]) =
   Inr \<lparr>cardData = \<lparr>revenue = ''150'', change = ''150'', percentageChange = ''Inf%'',
                      numericPercentageChange = Some PInf, revenueLabel = ''Q2 2024''\<rparr>,
        historicalData =
          \<lparr>own_props = [(''900'', [\<lparr>pt_date = ''2024-01-01'', pt_value = Fin 0\<rparr>,
                                     \<lparr>pt_date = ''2024-04-01'', pt_value = Fin 150\<rparr>])],
           proto = None\<rparr>,
        allRows = [JObj [([], JStr ''900''), (''2024-01-01'', JStr ''0''),
                         (''2024-04-01'', JStr ''150'')]]\<rparr> \<and>
   card_invariant \<lparr>revenue = ''150'', change = ''150'', percentageChange = ''Inf%'',
                   numericPercentageChange = Some PInf, revenueLabel = ''Q2 2024''\<rparr>"
proof -
  let ?row = "JObj [([], JStr ''900''), (''2024-01-01'', JStr ''0''), (''2024-04-01'', JStr ''150'')]"
  let ?cols = "[''2024-04-01'', ''2024-01-01'']"
  have keys: "sort_with example_host (sort_comparator example_host)
                (filter isDateColumn (own_keys ?row)) = ?cols"
    by code_simp
  have found: "findRevenueRow (JArr [?row]) = Inr (Some ?row)" by code_simp
  have kept: "filter_rows (JArr [?row]) = Inr [?row]" by code_simp
  have fmt: "toLocaleString_deDE example_host (Fin 150) = ''150''"
    by (simp add: fmt_defs)
  have latest: "getNumericValue (read_prop ?row ''2024-04-01'') = Some (Fin 150)" by code_simp
  have previous: "getNumericValue (read_prop ?row ''2024-01-01'') = Some (Fin 0)" by code_simp
  have label: "revenueLabel_of example_host (Some ''2024-04-01'') = ''Q2 2024''" by code_simp
  have card: "processRevenueCardData example_host ?row ?cols =
      Inr \<lparr>revenue = ''150'', change = ''150'', percentageChange = ''Inf%'',
           numericPercentageChange = Some PInf, revenueLabel = ''Q2 2024''\<rparr>"
    using fmt latest previous label
    by (simp add: processRevenueCardData_def get_prop_def column_at_def key_string_def
                  change_of_def)
  have hist: "extractHistoricalData (JArr [?row]) ?cols =
      Inr \<lparr>own_props = [(''900'', [\<lparr>pt_date = ''2024-01-01'', pt_value = Fin 0\<rparr>,
                                    \<lparr>pt_date = ''2024-04-01'', pt_value = Fin 150\<rparr>])],
           proto = None\<rparr>"
    by code_simp
  have run: "assemble example_host (JArr [?row]) =
      Inr \<lparr>cardData = \<lparr>revenue = ''150'', change = ''150'', percentageChange = ''Inf%'',
                         numericPercentageChange = Some PInf, revenueLabel = ''Q2 2024''\<rparr>,
           historicalData =
             \<lparr>own_props = [(''900'', [\<lparr>pt_date = ''2024-01-01'', pt_value = Fin 0\<rparr>,
                                        \<lparr>pt_date = ''2024-04-01'', pt_value = Fin 150\<rparr>])],
              proto = None\<rparr>,
           allRows = [?row]\<rparr>"
    using keys found kept card hist by (simp add: assemble_def array_index_def is_digit_def nat_of_digits_def digit_val_def)
  from card_invariant_pipeline [of example_host ?row ?cols "JArr [?row]"] run
  show ?thesis by auto
qed

subsection \<open>DashboardAssembler: failures and the cache\<close>

lemma fetch_fails_attempt:
  "fetch_fails (fetch url) \<Longrightarrow> attempt h fetch url = Inr degraded \<or> (\<exists>e. attempt h fetch url = Inl e)"
  by (auto simp: fetch_fails_def attempt_def assemble_def empty_data_def split: option.splits)

text \<open>
  C5: for every ticker, \<^verbatim>\<open>getCompanyDashboardData\<close> resolves and never rejects; when the
  ticker is not cached, it issues the request, stores the value it resolves with in the
  cache under the ticker, and if the request fails (it is rejected, the status is not a
  success, the body is not JSON, or the body is empty data) that value is the
  placeholder: every field of \<^verbatim>\<open>cardData\<close> is \<^verbatim>\<open>"N/A"\<close> with
  \<^verbatim>\<open>numericPercentageChange\<close> null, \<^verbatim>\<open>historicalData\<close> is empty and \<^verbatim>\<open>allRows\<close> is empty.
\<close>

theorem getCompanyDashboardData_degraded:
  "(\<exists>r. fst (getCompanyDashboardData h fetch t s) = Inr r) \<and>
   (cache_read s t = None \<longrightarrow>
      (\<exists>d. getCompanyDashboardData h fetch t s =
             (Inr (Dashboard d),
              s\<lparr>companyDataCache := (companyDataCache s)(t \<mapsto> d),
                requests := requests s @ [API_URL @ ''/?sheet='' @ t]\<rparr>) \<and>
           (fetch_fails (fetch (API_URL @ ''/?sheet='' @ t)) \<longrightarrow>
              d = \<lparr>cardData = \<lparr>revenue = ''N/A'', change = ''N/A'', percentageChange = ''N/A'',
                                numericPercentageChange = None, revenueLabel = ''N/A''\<rparr>,
                    historicalData = \<lparr>own_props = [], proto = None\<rparr>, allRows = []\<rparr>)))"
proof (intro conjI impI)
  show "\<exists>r. fst (getCompanyDashboardData h fetch t s) = Inr r"
    by (simp add: getCompanyDashboardData_def Let_def split: option.splits)
next
  let ?url = "API_URL @ ''/?sheet='' @ t"
  let ?d = "case attempt h fetch ?url of Inl e \<Rightarrow> degraded | Inr d \<Rightarrow> d"
  assume miss: "cache_read s t = None"
  then have run: "getCompanyDashboardData h fetch t s =
      (Inr (Dashboard ?d),
       s\<lparr>companyDataCache := (companyDataCache s)(t \<mapsto> ?d), requests := requests s @ [?url]\<rparr>)"
    by (simp add: getCompanyDashboardData_def Let_def)
  have "fetch_fails (fetch ?url) \<Longrightarrow> ?d = degraded"
    using fetch_fails_attempt [of fetch ?url h] by auto
  then have "fetch_fails (fetch ?url) \<longrightarrow>
      ?d = \<lparr>cardData = \<lparr>revenue = ''N/A'', change = ''N/A'', percentageChange = ''N/A'',
                         numericPercentageChange = None, revenueLabel = ''N/A''\<rparr>,
             historicalData = \<lparr>own_props = [], proto = None\<rparr>, allRows = []\<rparr>"
    by (simp add: degraded_def naCardData_def empty_object_def)
  with run show "\<exists>d. getCompanyDashboardData h fetch t s =
             (Inr (Dashboard d),
              s\<lparr>companyDataCache := (companyDataCache s)(t \<mapsto> d),
                requests := requests s @ [?url]\<rparr>) \<and>
           (fetch_fails (fetch ?url) \<longrightarrow>
              d = \<lparr>cardData = \<lparr>revenue = ''N/A'', change = ''N/A'', percentageChange = ''N/A'',
                                numericPercentageChange = None, revenueLabel = ''N/A''\<rparr>,
                    historicalData = \<lparr>own_props = [], proto = None\<rparr>, allRows = []\<rparr>)"
    by blast
qed

text \<open>An empty payload for the ticker "$XYZ" on an empty cache.\<close>

theorem getCompanyDashboardData_degraded_witness:
  "getCompanyDashboardData example_host (\<lambda>url. Some (Response True 200 (Some (JArr []))))
     ''$XYZ'' \<lparr>companyDataCache = Map.empty, requests = []\<rparr> =
   (Inr (Dashboard degraded),
    \<lparr>companyDataCache = [''$XYZ'' \<mapsto> degraded],
     requests = [''https://sheetdb.io/api/v1/w8reb3oo0bas6/?sheet=$XYZ'']\<rparr>)"
proof -
  let ?fetch = "\<lambda>url::string. Some (Response True 200 (Some (JArr [])))"
  let ?s = "\<lparr>companyDataCache = Map.empty, requests = []\<rparr>"
  have miss: "cache_read ?s ''$XYZ'' = None"
    by (simp add: cache_read_def objectPrototypeKeys_def)
  have fails: "fetch_fails (?fetch (API_URL @ ''/?sheet='' @ ''$XYZ''))"
    by (simp add: fetch_fails_def empty_data_def)
  from getCompanyDashboardData_degraded [of example_host ?fetch "''$XYZ''" ?s] miss fails
  show ?thesis by (auto simp: degraded_def naCardData_def empty_object_def API_URL_def)
qed

text \<open>
  C8: once a call of \<^verbatim>\<open>getCompanyDashboardData\<close> has completed and the cache holds a
  value under the ticker, that call has resolved with this value, and every later call
  with the same ticker resolves with the same value whatever the upstream would answer,
  leaving the state unchanged: no request is issued and the cache is as before.
\<close>

theorem getCompanyDashboardData_cached:
  assumes "getCompanyDashboardData h fetch1 t s0 = (r1, s1)"
    and "companyDataCache s1 t = Some d"
  shows "r1 = Inr (Dashboard d) \<and>
         getCompanyDashboardData h fetch2 t s1 = (Inr (Dashboard d), s1)"
proof -
  have second: "getCompanyDashboardData h fetch2 t s1 = (Inr (Dashboard d), s1)"
    using assms(2) by (simp add: getCompanyDashboardData_def cache_read_def)
  have first: "r1 = Inr (Dashboard d)"
    using assms
    by (auto simp: getCompanyDashboardData_def cache_read_def Let_def
             split: option.splits if_splits)
  from first second show ?thesis by simp
qed

text \<open>
  A first call for "$XYZ" on an empty cache with an empty payload, then a second call
  whose upstream would reject.
\<close>

theorem getCompanyDashboardData_cached_witness:
  "getCompanyDashboardData example_host (\<lambda>url. None) ''$XYZ''
     \<lparr>companyDataCache = [''$XYZ'' \<mapsto> degraded],
      requests = [''https://sheetdb.io/api/v1/w8reb3oo0bas6/?sheet=$XYZ'']\<rparr> =
   (Inr (Dashboard degraded),
    \<lparr>companyDataCache = [''$XYZ'' \<mapsto> degraded],
     requests = [''https://sheetdb.io/api/v1/w8reb3oo0bas6/?sheet=$XYZ'']\<rparr>)"
proof -
  let ?fetch = "\<lambda>url::string. Some (Response True 200 (Some (JArr [])))"
  let ?s0 = "\<lparr>companyDataCache = Map.empty, requests = []\<rparr>"
  let ?s1 = "\<lparr>companyDataCache = [''$XYZ'' \<mapsto> degraded],
              requests = [''https://sheetdb.io/api/v1/w8reb3oo0bas6/?sheet=$XYZ'']\<rparr>"
  have first: "getCompanyDashboardData example_host ?fetch ''$XYZ'' ?s0 =
                 (Inr (Dashboard degraded), ?s1)"
    by (simp add: getCompanyDashboardData_def cache_read_def objectPrototypeKeys_def
                  attempt_def assemble_def API_URL_def Let_def)
  have stored: "companyDataCache ?s1 ''$XYZ'' = Some degraded" by simp
  from getCompanyDashboardData_cached [OF first stored, of "\<lambda>url. None"]
  show ?thesis by simp
qed

subsection \<open>PeriodOrdering: an unknown month\<close>

lemma dmy_tail_space: "dmy_tail t = Some r \<Longrightarrow> CHR '' '' \<in> set t"
  by (auto simp: dmy_tail_def split: list.splits if_splits)

lemma dmy_day_space: "dmy_day n s = Some r \<Longrightarrow> CHR '' '' \<in> set s"
proof -
  assume "dmy_day n s = Some r"
  then obtain q where "dmy_tail (drop n s) = Some q"
    by (auto simp: dmy_day_def split: if_splits)
  then have "CHR '' '' \<in> set (drop n s)" by (rule dmy_tail_space)
  then show ?thesis by (rule in_set_dropD)
qed

lemma dmy_here_space: "dmy_here s = Some r \<Longrightarrow> CHR '' '' \<in> set s"
  by (auto simp: dmy_here_def split: option.splits dest: dmy_day_space)

lemma dmy_match_space: "dmy_match s = Some r \<Longrightarrow> CHR '' '' \<in> set s"
proof (induction s)
  case Nil
  then show ?case by simp
next
  case (Cons c s)
  show ?case
  proof (cases "dmy_here (c # s)")
    case None
    with Cons show ?thesis by simp
  next
    case (Some q)
    then show ?thesis by (rule dmy_here_space)
  qed
qed

lemma iso_match_chars: "iso_match s \<Longrightarrow> c \<in> set s \<Longrightarrow> is_digit c \<or> c = CHR ''-''"
  by (auto simp: iso_match_def split: list.splits)

lemma iso_match_no_space: "iso_match s \<Longrightarrow> CHR '' '' \<notin> set s"
proof
  assume "iso_match s" and "CHR '' '' \<in> set s"
  then have "is_digit CHR '' '' \<or> CHR '' '' = CHR ''-''" by (rule iso_match_chars)
  then show False by (simp add: is_digit_def)
qed

lemma dmy_not_iso: "dmy_match s = Some r \<Longrightarrow> \<not> iso_match s"
  using dmy_match_space iso_match_no_space by blast

lemma monthNames_unknown:
  "p2 \<notin> set [''Jan'', ''Feb'', ''Mar'', ''Apr'', ''May'', ''Jun'',
               ''Jul'', ''Aug'', ''Sep'', ''Oct'', ''Nov'', ''Dec''] \<Longrightarrow> monthNames p2 = None"
  by (simp add: monthNames_def)

text \<open>
  C9: for every header in which the day-month-year pattern matches and whose captured
  month is not one of the twelve capitalised English abbreviations,
  \<^verbatim>\<open>_parseDateStringForSorting\<close> returns an invalid date (a NaN time value), not the epoch
  sentinel; the comparator of the sort then returns NaN against every other header, so
  the header is not ordered last the way an unparseable header is.
\<close>

theorem parseDateStringForSorting_unknown_month:
  assumes "dmy_match dateStr = Some (p1, p2, p3)"
    and "p2 \<notin> set [''Jan'', ''Feb'', ''Mar'', ''Apr'', ''May'', ''Jun'',
                    ''Jul'', ''Aug'', ''Sep'', ''Oct'', ''Nov'', ''Dec'']"
  shows "parseDateStringForSorting h dateStr = InvalidDate \<and>
         parseDateStringForSorting h dateStr \<noteq> DateAt 0 \<and>
         time_value (parseDateStringForSorting h dateStr) = NaN \<and>
         sort_comparator h dateStr other = NaN \<and>
         sort_comparator h other dateStr = NaN"
proof -
  have "\<not> iso_match dateStr" using assms(1) by (rule dmy_not_iso)
  moreover have "monthNames p2 = None" using assms(2) by (rule monthNames_unknown)
  ultimately have inv: "parseDateStringForSorting h dateStr = InvalidDate"
    using assms(1) by (simp add: parseDateStringForSorting_def new_Date_ymd_def Let_def)
  have "js_sub x NaN = NaN" for x by (cases x) simp_all
  with inv show ?thesis by (simp add: sort_comparator_def time_value_def)
qed

text \<open>The header "1 jan 24", which is a period column.\<close>

theorem parseDateStringForSorting_unknown_month_witness:
  "isDateColumn ''1 jan 24'' \<and>
   parseDateStringForSorting example_host ''1 jan 24'' = InvalidDate \<and>
   sort_comparator example_host ''1 jan 24'' ''garbage'' = NaN"
proof -
  have a: "dmy_match ''1 jan 24'' = Some (''1'', ''jan'', ''24'')" by code_simp
  have b: "''jan'' \<notin> set [''Jan'', ''Feb'', ''Mar'', ''Apr'', ''May'', ''Jun'',
                    ''Jul'', ''Aug'', ''Sep'', ''Oct'', ''Nov'', ''Dec'']" by simp
  have c: "isDateColumn ''1 jan 24''" using a by (simp add: isDateColumn_def)
  from parseDateStringForSorting_unknown_month [OF a b, of example_host "''garbage''"] c
  show ?thesis by simp
qed

subsection \<open>HistoricalExtractor: a label of white space\<close>

lemma dropWhile_all: "\<forall>c \<in> set w. P c \<Longrightarrow> dropWhile P w = []"
  by (induction w) auto

lemma trim_spaces: "\<forall>c \<in> set w. is_space c \<Longrightarrow> trim w = []"
  by (simp add: trim_def dropWhile_all del: dropWhile_eq_Nil_conv)

lemma read_prop_nullish: "nullish row \<Longrightarrow> read_prop row k = JUndefined"
  by (cases row) simp_all

lemma metricName_of_whitespace:
  assumes "read_prop row [] = JStr w" and "w \<noteq> []" and "\<forall>c \<in> set w. is_space c"
  shows "metricName_of row = Inr []"
proof -
  have "\<not> nullish row" using assms(1) read_prop_nullish [of row "[]"] by auto
  then show ?thesis
    using assms by (simp add: metricName_of_def get_prop_def trim_spaces)
qed

lemma extractHistoricalData_loop_skip:
  "metricName_of row = Inr [] \<Longrightarrow>
   extractHistoricalData_loop (before @ row # after) cols acc =
   extractHistoricalData_loop (before @ after) cols acc"
  by (induction before arbitrary: acc) (simp_all add: Let_def split: sum.splits)

text \<open>
  C10: for every row whose empty-string cell is a non-empty string of white space only,
  the metric name is the empty string, whatever the \<^verbatim>\<open>Release\<close> cell holds (the fallback
  to it is taken before trimming, on a falsy cell only), and the row is skipped: the
  extraction is the same with and without the row.
\<close>

theorem extractHistoricalData_whitespace_label:
  assumes "read_prop row [] = JStr w" and "w \<noteq> []" and "\<forall>c \<in> set w. is_space c"
  shows "metricName_of row = Inr [] \<and>
         extractHistoricalData (JArr (before @ row # after)) cols =
         extractHistoricalData (JArr (before @ after)) cols"
proof -
  have "metricName_of row = Inr []" using assms by (rule metricName_of_whitespace)
  then show ?thesis
    by (simp add: extractHistoricalData_def extractHistoricalData_loop_skip)
qed

text \<open>A row labelled by one space whose \<^verbatim>\<open>Release\<close> cell is "Revenue".\<close>

theorem extractHistoricalData_whitespace_label_witness:
  "metricName_of (JObj [([], JStr '' ''), (''Release'', JStr ''Revenue''), (''2024-01-01'', JStr ''7'')]) = Inr [] \<and>
   extractHistoricalData
     (JArr [JObj [([], JStr '' ''), (''Release'', JStr ''Revenue''), (''2024-01-01'', JStr ''7'')]])
     [''2024-01-01''] = Inr \<lparr>own_props = [], proto = None\<rparr>"
proof -
  let ?row = "JObj [([], JStr '' ''), (''Release'', JStr ''Revenue''), (''2024-01-01'', JStr ''7'')]"
  have a: "read_prop ?row [] = JStr '' ''" by simp
  have b: "'' '' \<noteq> []" by simp
  have c: "\<forall>c \<in> set '' ''. is_space c" by (simp add: is_space_def)
  have d: "extractHistoricalData (JArr ([] @ [])) [''2024-01-01''] =
      Inr \<lparr>own_props = [], proto = None\<rparr>"
    by (simp add: extractHistoricalData_def empty_object_def)
  from extractHistoricalData_whitespace_label [OF a b c, of "[]" "[]" "[''2024-01-01'']"] d
  show ?thesis by simp
qed

subsection \<open>RevenueRowSelector\<close>

lemma js_gt_trans: "js_gt a b \<Longrightarrow> js_gt b c \<Longrightarrow> js_gt a c"
  by (cases a; cases b; cases c) auto

lemma js_gt_irrefl: "\<not> js_gt a a"
  by (cases a) auto

lemma js_gt_not_NaN: "js_gt a b \<Longrightarrow> \<not> isNaN a"
  by (cases a; cases b) auto

lemma js_gt_above: "js_gt x m \<Longrightarrow> \<not> js_gt y m \<Longrightarrow> \<not> isNaN y \<Longrightarrow> js_gt x y"
  by (cases x; cases m; cases y) auto

lemma numeric_label_object:
  "getNumericValue (read_prop row []) = Some n \<Longrightarrow> truthy row \<and> typeof_object row"
  by (cases row) (auto simp: getNumericValue_def array_index_def)

lemma findRevenueRow_loop_step:
  "findRevenueRow_loop (row # rows) best m =
     (if selectable row \<and> js_gt (label_value row) m
      then findRevenueRow_loop rows (Some row) (label_value row)
      else findRevenueRow_loop rows best m)"
  by (auto simp: selectable_def eligible_def label_value_def
           split: option.splits dest: numeric_label_object)

lemma selectable_not_NaN: "selectable row \<Longrightarrow> \<not> isNaN (label_value row)"
  by (auto simp: selectable_def eligible_def dest: js_gt_not_NaN)

lemma selectable_above_100: "selectable row \<Longrightarrow> js_gt (label_value row) (Fin 100)"
  by (simp add: selectable_def eligible_def)

lemma first_maximal_here:
  assumes "selectable row"
    and "\<forall>x \<in> set rows. selectable x \<longrightarrow> \<not> js_gt (label_value x) (label_value row)"
  shows "first_maximal (row # rows) row"
  unfolding first_maximal_def
  using assms by (intro exI [of _ "[]"] exI [of _ rows]) simp

lemma first_maximal_later:
  assumes "first_maximal rows b"
    and "selectable row \<longrightarrow> js_gt (label_value b) (label_value row)"
  shows "first_maximal (row # rows) b"
proof -
  from assms(1) obtain pre post where
    r: "rows = pre @ b # post" and
    s: "selectable b" and
    p: "\<forall>x \<in> set pre. selectable x \<longrightarrow> js_gt (label_value b) (label_value x)" and
    q: "\<forall>x \<in> set post. selectable x \<longrightarrow> \<not> js_gt (label_value x) (label_value b)"
    unfolding first_maximal_def by blast
  show ?thesis
    unfolding first_maximal_def
    using r s p q assms(2) by (intro exI [of _ "row # pre"] exI [of _ post]) simp
qed

lemma first_maximal_selectable: "first_maximal rows b \<Longrightarrow> selectable b \<and> b \<in> set rows"
  unfolding first_maximal_def by auto

lemma findRevenueRow_loop_spec:
  "(findRevenueRow_loop rows best m = best \<and>
      (\<forall>row \<in> set rows. selectable row \<longrightarrow> \<not> js_gt (label_value row) m)) \<or>
   (\<exists>b. findRevenueRow_loop rows best m = Some b \<and> first_maximal rows b \<and>
        js_gt (label_value b) m)"
proof (induction rows arbitrary: best m)
  case Nil
  show ?case by simp
next
  case (Cons row rows)
  show ?case
  proof (cases "selectable row \<and> js_gt (label_value row) m")
    case True
    then have step: "findRevenueRow_loop (row # rows) best m =
        findRevenueRow_loop rows (Some row) (label_value row)"
      by (simp add: findRevenueRow_loop_step del: findRevenueRow_loop.simps)
    from Cons.IH [of "Some row" "label_value row"] show ?thesis
    proof
      assume a: "findRevenueRow_loop rows (Some row) (label_value row) = Some row \<and>
          (\<forall>x \<in> set rows. selectable x \<longrightarrow> \<not> js_gt (label_value x) (label_value row))"
      with True have "first_maximal (row # rows) row" by (simp add: first_maximal_here)
      with a step True show ?thesis by simp
    next
      assume "\<exists>b. findRevenueRow_loop rows (Some row) (label_value row) = Some b \<and>
          first_maximal rows b \<and> js_gt (label_value b) (label_value row)"
      then obtain b where
        f: "findRevenueRow_loop rows (Some row) (label_value row) = Some b" and
        fm: "first_maximal rows b" and
        g: "js_gt (label_value b) (label_value row)"
        by blast
      from g True have gm: "js_gt (label_value b) m" by (blast intro: js_gt_trans)
      from fm g have "first_maximal (row # rows) b" by (simp add: first_maximal_later)
      with step f gm show ?thesis by simp
    qed
  next
    case False
    have step: "findRevenueRow_loop (row # rows) best m = findRevenueRow_loop rows best m"
      unfolding findRevenueRow_loop_step using False by (rule if_not_P)
    from Cons.IH [of best m] show ?thesis
    proof
      assume "findRevenueRow_loop rows best m = best \<and>
          (\<forall>x \<in> set rows. selectable x \<longrightarrow> \<not> js_gt (label_value x) m)"
      with step False show ?thesis by auto
    next
      assume "\<exists>b. findRevenueRow_loop rows best m = Some b \<and> first_maximal rows b \<and>
          js_gt (label_value b) m"
      then obtain b where
        f: "findRevenueRow_loop rows best m = Some b" and
        fm: "first_maximal rows b" and
        g: "js_gt (label_value b) m"
        by blast
      have "selectable row \<longrightarrow> js_gt (label_value b) (label_value row)"
      proof
        assume sel: "selectable row"
        with False have "\<not> js_gt (label_value row) m" by simp
        with g show "js_gt (label_value b) (label_value row)"
          using selectable_not_NaN [OF sel] by (rule js_gt_above)
      qed
      with fm have "first_maximal (row # rows) b" by (rule first_maximal_later)
      with step f g show ?thesis by simp
    qed
  qed
qed

text \<open>
  C3, as amended: for every sequence of rows, \<^verbatim>\<open>_findRevenueRow\<close> returns null exactly when
  no row is an eligible candidate (its empty-string cell parses numerically and exceeds
  100, and the row has a period column) that is not disqualified by a trimmed
  \<^verbatim>\<open>Release\<close> cell equal to "Quarter", "Episode", "Period" or "Metric"; otherwise it
  returns the first-seen row of maximal label value among the eligible rows that are not
  disqualified, and a disqualified row is never returned.
\<close>

theorem findRevenueRow_selects:
  "\<exists>r. findRevenueRow (JArr rows) = Inr r \<and>
     ((r = None) = (\<forall>row \<in> set rows. \<not> (eligible row \<and> \<not> isReleaseColIdentifying row))) \<and>
     (\<forall>best. r = Some best \<longrightarrow> first_maximal rows best \<and> \<not> isReleaseColIdentifying best)"
proof -
  let ?r = "findRevenueRow_loop rows None (Fin (- 1))"
  have run: "findRevenueRow (JArr rows) = Inr ?r" by (simp add: findRevenueRow_def)
  have above: "selectable x \<Longrightarrow> js_gt (label_value x) (Fin (- 1))" for x
  proof -
    assume "selectable x"
    then have "js_gt (label_value x) (Fin 100)" by (rule selectable_above_100)
    moreover have "js_gt (Fin 100) (Fin (- 1))" by simp
    ultimately show ?thesis by (rule js_gt_trans)
  qed
  from findRevenueRow_loop_spec [of rows None "Fin (- 1)"]
  have "((?r = None) = (\<forall>row \<in> set rows. \<not> selectable row)) \<and>
     (\<forall>best. ?r = Some best \<longrightarrow> first_maximal rows best \<and> \<not> isReleaseColIdentifying best)"
  proof
    assume "?r = None \<and>
      (\<forall>row \<in> set rows. selectable row \<longrightarrow> \<not> js_gt (label_value row) (Fin (- 1)))"
    with above show ?thesis by auto
  next
    assume "\<exists>b. ?r = Some b \<and> first_maximal rows b \<and> js_gt (label_value b) (Fin (- 1))"
    then obtain b where f: "?r = Some b" and fm: "first_maximal rows b" by blast
    from fm have "selectable b \<and> b \<in> set rows" by (rule first_maximal_selectable)
    then have "\<not> (\<forall>row \<in> set rows. \<not> selectable row)" and "\<not> isReleaseColIdentifying b"
      by (auto simp: selectable_def)
    with f fm show ?thesis by simp
  qed
  with run show ?thesis by (simp add: selectable_def)
qed

text \<open>A disqualified row labelled 300 before a data row labelled 200: the data row wins.\<close>

theorem findRevenueRow_selects_witness:
  "findRevenueRow
     (JArr [JObj [([], JStr ''300''), (''Release'', JStr ''Quarter''), (''2024-01-01'', JStr ''x'')],
            JObj [([], JStr ''200''), (''2024-01-01'', JStr ''y'')]]) =
   Inr (Some (JObj [([], JStr ''200''), (''2024-01-01'', JStr ''y'')]))"
proof -
  let ?r1 = "JObj [([], JStr ''300''), (''Release'', JStr ''Quarter''), (''2024-01-01'', JStr ''x'')]"
  let ?r2 = "JObj [([], JStr ''200''), (''2024-01-01'', JStr ''y'')]"
  have d1: "isReleaseColIdentifying ?r1" by code_simp
  have e2: "eligible ?r2 \<and> \<not> isReleaseColIdentifying ?r2" by code_simp
  from findRevenueRow_selects [of "[?r1, ?r2]"]
  obtain r where run: "findRevenueRow (JArr [?r1, ?r2]) = Inr r"
    and none: "(r = None) =
        (\<forall>row \<in> set [?r1, ?r2]. \<not> (eligible row \<and> \<not> isReleaseColIdentifying row))"
    and best: "\<forall>best. r = Some best \<longrightarrow>
        first_maximal [?r1, ?r2] best \<and> \<not> isReleaseColIdentifying best"
    by blast
  from none e2 obtain b where b: "r = Some b" by auto
  with best have "first_maximal [?r1, ?r2] b" and ok: "\<not> isReleaseColIdentifying b" by simp_all
  then have "b \<in> set [?r1, ?r2]" using first_maximal_selectable by blast
  with ok d1 have "b = ?r2" by auto
  with run b show ?thesis by simp
qed

text \<open>
  The claim as stated fails when the only eligible candidate is disqualified: a row is an
  eligible candidate, so the claim has the selector return a row, and it returns null.
\<close>

theorem findRevenueRow_disqualified_counterexample:
  "eligible (JObj [([], JStr ''200''), (''Release'', JStr ''Quarter''), (''2024-01-01'', JStr ''x'')]) \<and>
   findRevenueRow
     (JArr [JObj [([], JStr ''200''), (''Release'', JStr ''Quarter''), (''2024-01-01'', JStr ''x'')]]) =
   Inr None"
  by code_simp

subsection \<open>HistoricalExtractor: the mapping\<close>

lemma map_filter_dates:
  "map pt_date
     (List.map_filter
        (\<lambda>dateCol. map_option (\<lambda>v. \<lparr>pt_date = dateCol, pt_value = v\<rparr>)
                                (getNumericValue (read_prop row dateCol))) xs) =
   filter (parses row) xs"
  by (induction xs) (auto simp: List.map_filter_simps parses_def split: option.splits)

lemma series_of_dates: "map pt_date (series_of row cols) = filter (parses row) (rev cols)"
  by (simp add: series_of_def map_filter_dates)

lemma series_of_values:
  "p \<in> set (series_of row cols) \<Longrightarrow>
   getNumericValue (read_prop row (pt_date p)) = Some (pt_value p)"
  by (auto simp: series_of_def List.map_filter_def)

lemma extractHistoricalData_loop_returns:
  "(\<exists>out. extractHistoricalData_loop rows cols acc = Inr out) =
   (\<forall>row \<in> set rows. \<exists>n. metricName_of row = Inr n)"
proof (induction rows arbitrary: acc)
  case Nil
  show ?case by simp
next
  case (Cons row rows)
  show ?case
  proof (cases "metricName_of row")
    case (Inl e)
    then show ?thesis by simp
  next
    case (Inr n)
    then show ?thesis using Cons.IH by (simp add: Let_def)
  qed
qed

lemma contributes_iff:
  "metricName_of row = Inr n \<Longrightarrow>
   contributes cols name row =
     (n = name \<and> n \<noteq> [] \<and> n \<notin> set [''Quarter'', ''Episode''] \<and> series_of row cols \<noteq> [])"
  by (auto simp: contributes_def retained_as_def)

lemma own_props_assign:
  "name \<noteq> ''__proto__'' \<Longrightarrow>
   map_of (own_props (assign_series n s acc)) name =
     (if n = name then Some s else map_of (own_props acc) name)"
  by (simp add: assign_series_def update_conv')

lemma own_props_assign_proto:
  "map_of (own_props (assign_series n s acc)) ''__proto__'' = map_of (own_props acc) ''__proto__''"
  by (simp add: assign_series_def update_conv')

lemma proto_assign:
  "proto (assign_series n s acc) = (if n = ''__proto__'' then Some s else proto acc)"
  by (simp add: assign_series_def)

lemma extractHistoricalData_loop_map_of:
  "extractHistoricalData_loop rows cols acc = Inr out \<Longrightarrow> name \<noteq> ''__proto__'' \<Longrightarrow>
   map_of (own_props out) name =
     (case filter (contributes cols name) rows of
        [] \<Rightarrow> map_of (own_props acc) name
      | r # rs \<Rightarrow> Some (series_of (last (r # rs)) cols))"
proof (induction rows arbitrary: acc)
  case Nil
  then show ?case by simp
next
  case (Cons row rows)
  from Cons.prems obtain n where n: "metricName_of row = Inr n"
    by (auto split: sum.splits)
  show ?case
  proof (cases "n \<noteq> [] \<and> n \<notin> set [''Quarter'', ''Episode''] \<and> series_of row cols \<noteq> []")
    case True
    with Cons.prems n
    have "extractHistoricalData_loop rows cols (assign_series n (series_of row cols) acc) = Inr out"
      by (simp add: Let_def)
    then have ih: "map_of (own_props out) name =
        (case filter (contributes cols name) rows of
           [] \<Rightarrow> map_of (own_props (assign_series n (series_of row cols) acc)) name
         | r # rs \<Rightarrow> Some (series_of (last (r # rs)) cols))"
      using Cons.prems(2) by (rule Cons.IH)
    show ?thesis
    proof (cases "n = name")
      case True
      with \<open>n \<noteq> [] \<and> n \<notin> set [''Quarter'', ''Episode''] \<and> series_of row cols \<noteq> []\<close> n
      have c: "contributes cols name row" by (simp add: contributes_iff)
      with ih True Cons.prems(2) show ?thesis
        by (simp add: own_props_assign split: list.splits)
    next
      case False
      with n have c: "\<not> contributes cols name row" by (simp add: contributes_iff)
      with ih False Cons.prems(2) show ?thesis
        by (simp add: own_props_assign split: list.splits)
    qed
  next
    case False
    with Cons.prems n
    have "extractHistoricalData_loop rows cols acc = Inr out"
      by (auto simp: Let_def split: if_splits)
    then have ih: "map_of (own_props out) name =
        (case filter (contributes cols name) rows of
           [] \<Rightarrow> map_of (own_props acc) name
         | r # rs \<Rightarrow> Some (series_of (last (r # rs)) cols))"
      using Cons.prems(2) by (rule Cons.IH)
    from False n have "\<not> contributes cols name row" by (auto simp: contributes_iff)
    with ih show ?thesis by simp
  qed
qed

text \<open>
  The name \<^verbatim>\<open>__proto__\<close> never becomes an own property: the series of the last
  contributing row of that name is the prototype of the result.
\<close>

lemma extractHistoricalData_loop_proto:
  "extractHistoricalData_loop rows cols acc = Inr out \<Longrightarrow>
   map_of (own_props out) ''__proto__'' = map_of (own_props acc) ''__proto__'' \<and>
   proto out =
     (case filter (contributes cols ''__proto__'') rows of
        [] \<Rightarrow> proto acc
      | r # rs \<Rightarrow> Some (series_of (last (r # rs)) cols))"
proof (induction rows arbitrary: acc)
  case Nil
  then show ?case by simp
next
  case (Cons row rows)
  from Cons.prems obtain n where n: "metricName_of row = Inr n"
    by (auto split: sum.splits)
  show ?case
  proof (cases "n \<noteq> [] \<and> n \<notin> set [''Quarter'', ''Episode''] \<and> series_of row cols \<noteq> []")
    case True
    with Cons.prems n
    have "extractHistoricalData_loop rows cols (assign_series n (series_of row cols) acc) = Inr out"
      by (simp add: Let_def)
    then have ih: "map_of (own_props out) ''__proto__'' =
          map_of (own_props (assign_series n (series_of row cols) acc)) ''__proto__'' \<and>
        proto out =
        (case filter (contributes cols ''__proto__'') rows of
           [] \<Rightarrow> proto (assign_series n (series_of row cols) acc)
         | r # rs \<Rightarrow> Some (series_of (last (r # rs)) cols))"
      by (rule Cons.IH)
    from True n have c: "contributes cols ''__proto__'' row = (n = ''__proto__'')"
      by (auto simp: contributes_iff)
    with ih show ?thesis
      by (simp add: own_props_assign_proto proto_assign split: list.splits)
  next
    case False
    with Cons.prems n
    have "extractHistoricalData_loop rows cols acc = Inr out"
      by (auto simp: Let_def split: if_splits)
    then have ih: "map_of (own_props out) ''__proto__'' = map_of (own_props acc) ''__proto__'' \<and>
        proto out =
        (case filter (contributes cols ''__proto__'') rows of
           [] \<Rightarrow> proto acc
         | r # rs \<Rightarrow> Some (series_of (last (r # rs)) cols))"
      by (rule Cons.IH)
    from False n have "\<not> contributes cols ''__proto__'' row" by (auto simp: contributes_iff)
    with ih show ?thesis by simp
  qed
qed

lemma extractHistoricalData_proto_name:
  "extractHistoricalData (JArr rows) cols = Inr out \<Longrightarrow>
   map_of (own_props out) ''__proto__'' = None \<and>
   proto out =
     (case filter (contributes cols ''__proto__'') rows of
        [] \<Rightarrow> None
      | r # rs \<Rightarrow> Some (series_of (last (r # rs)) cols))"
  using extractHistoricalData_loop_proto [of rows cols empty_object out]
  by (simp add: extractHistoricalData_def empty_object_def split: list.splits)

text \<open>
  C7, as amended: for every row sequence and period list, \<^verbatim>\<open>_extractHistoricalData\<close>
  returns a mapping exactly when every row has a metric name (deriving it throws on a
  row that is \<^verbatim>\<open>null\<close> and on a truthy label cell that is not a string). The mapping
  skips the rows whose metric name is empty, "Quarter" or "Episode"; the series of a
  row holds, for the periods in reversed order, exactly the entries whose cells parse
  numerically; a metric name other than \<^verbatim>\<open>__proto__\<close> is a key of the mapping exactly when
  some retained row of that name has a non-empty series, and it maps to the series of the
  last such row, so that a later retained row with an empty series does not overwrite an
  earlier one.
\<close>

theorem extractHistoricalData_last_contribution:
  "((\<exists>out. extractHistoricalData (JArr rows) cols = Inr out) =
      (\<forall>row \<in> set rows. \<exists>n. metricName_of row = Inr n)) \<and>
   (\<forall>out name. extractHistoricalData (JArr rows) cols = Inr out \<and> name \<noteq> ''__proto__'' \<longrightarrow>
      map_of (own_props out) name =
        (case filter (contributes cols name) rows of
           [] \<Rightarrow> None
         | r # rs \<Rightarrow> Some (series_of (last (r # rs)) cols))) \<and>
   (\<forall>row. map pt_date (series_of row cols) = filter (parses row) (rev cols) \<and>
      (\<forall>p \<in> set (series_of row cols).
         getNumericValue (read_prop row (pt_date p)) = Some (pt_value p)))"
proof (intro conjI allI impI ballI)
  show "(\<exists>out. extractHistoricalData (JArr rows) cols = Inr out) =
      (\<forall>row \<in> set rows. \<exists>n. metricName_of row = Inr n)"
    by (simp add: extractHistoricalData_def extractHistoricalData_loop_returns)
next
  fix out name
  assume a: "extractHistoricalData (JArr rows) cols = Inr out \<and> name \<noteq> ''__proto__''"
  then have "extractHistoricalData_loop rows cols empty_object = Inr out"
    by (simp add: extractHistoricalData_def)
  then show "map_of (own_props out) name =
        (case filter (contributes cols name) rows of
           [] \<Rightarrow> None
         | r # rs \<Rightarrow> Some (series_of (last (r # rs)) cols))"
    using extractHistoricalData_loop_map_of [of rows cols empty_object out name] a
    by (simp add: empty_object_def split: list.splits)
next
  fix row
  show "map pt_date (series_of row cols) = filter (parses row) (rev cols)"
    by (rule series_of_dates)
next
  fix row p
  assume "p \<in> set (series_of row cols)"
  then show "getNumericValue (read_prop row (pt_date p)) = Some (pt_value p)"
    by (rule series_of_values)
qed

text \<open>
  Two rows named "X" with the values 1 and 2 for the same period, then a row named
  \<^verbatim>\<open>__proto__\<close>: under "X" the second row wins, and the third adds no key.
\<close>

theorem extractHistoricalData_last_contribution_witness:
  "extractHistoricalData
     (JArr [JObj [([], JStr ''X''), (''2024-01-01'', JStr ''1'')],
            JObj [([], JStr ''X''), (''2024-01-01'', JStr ''2'')],
            JObj [([], JStr ''__proto__''), (''2024-01-01'', JStr ''3'')]])
     [''2024-01-01''] =
   Inr \<lparr>own_props = [(''X'', [\<lparr>pt_date = ''2024-01-01'', pt_value = Fin 2\<rparr>])],
        proto = Some [\<lparr>pt_date = ''2024-01-01'', pt_value = Fin 3\<rparr>]\<rparr> \<and>
   map_of [(''X'', [\<lparr>pt_date = ''2024-01-01'', pt_value = Fin 2\<rparr>])] ''X'' =
   Some (series_of (JObj [([], JStr ''X''), (''2024-01-01'', JStr ''2'')]) [''2024-01-01''])"
proof -
  let ?r1 = "JObj [([], JStr ''X''), (''2024-01-01'', JStr ''1'')]"
  let ?r2 = "JObj [([], JStr ''X''), (''2024-01-01'', JStr ''2'')]"
  let ?r3 = "JObj [([], JStr ''__proto__''), (''2024-01-01'', JStr ''3'')]"
  let ?cols = "[''2024-01-01'']"
  let ?out = "\<lparr>own_props = [(''X'', [\<lparr>pt_date = ''2024-01-01'', pt_value = Fin 2\<rparr>])],
               proto = Some [\<lparr>pt_date = ''2024-01-01'', pt_value = Fin 3\<rparr>]\<rparr>"
  have run: "extractHistoricalData (JArr [?r1, ?r2, ?r3]) ?cols = Inr ?out"
    by code_simp
  have name: "''X'' \<noteq> ''__proto__''" by simp
  have both: "filter (contributes ?cols ''X'') [?r1, ?r2, ?r3] = [?r1, ?r2]" by code_simp
  from extractHistoricalData_last_contribution [of "[?r1, ?r2, ?r3]" ?cols] run name
  have "map_of (own_props ?out) ''X'' =
        (case filter (contributes ?cols ''X'') [?r1, ?r2, ?r3] of
           [] \<Rightarrow> None
         | r # rs \<Rightarrow> Some (series_of (last (r # rs)) ?cols))"
    by blast
  with both run show ?thesis by simp
qed

text \<open>
  The claim as stated fails on two retained rows named "X" of which the later has no
  numeric cell: its series is empty, and the mapping keeps the series of the earlier
  row instead of the later row's series.
\<close>

theorem extractHistoricalData_empty_later_counterexample:
  "retained_as ''X'' (JObj [([], JStr ''X''), (''2024-01-01'', JStr ''1'')]) \<and>
   retained_as ''X'' (JObj [([], JStr ''X''), (''2024-01-01'', JStr ''abc'')]) \<and>
   series_of (JObj [([], JStr ''X''), (''2024-01-01'', JStr ''abc'')]) [''2024-01-01''] = [] \<and>
   extractHistoricalData
     (JArr [JObj [([], JStr ''X''), (''2024-01-01'', JStr ''1'')],
            JObj [([], JStr ''X''), (''2024-01-01'', JStr ''abc'')]])
     [''2024-01-01''] =
   Inr \<lparr>own_props = [(''X'', [\<lparr>pt_date = ''2024-01-01'', pt_value = Fin 1\<rparr>])],
        proto = None\<rparr>"
  by code_simp

end
